theory Spec2Isabelle
  imports Complex_Main "HOL-Library.List_Lexorder" "HOL-Library.Char_ord"
begin

section \<open>Python built-ins used by the services\<close>

text \<open>
  Python strings are modelled as \<^typ>\<open>string\<close> (the UTF-8 bytes of the text). The order
  on strings is the lexicographic order on character codes, which is what Python's
  \<^verbatim>\<open>sorted\<close> on \<^verbatim>\<open>str\<close> and SQLite's comparison of \<^verbatim>\<open>TEXT\<close> values
  (BINARY collation) compute.
\<close>

text \<open>\<^verbatim>\<open>str(n)\<close> for a non-negative integer: its decimal digits.\<close>

fun str_nat :: "nat \<Rightarrow> string" where
  "str_nat n = (if n < 10 then [''0123456789'' ! n]
                else str_nat (n div 10) @ [''0123456789'' ! (n mod 10)])"

declare str_nat.simps [simp del]

text \<open>\<^verbatim>\<open>str(i)\<close>, the text an f-string inserts for an \<^verbatim>\<open>int\<close>.\<close>

definition str_int :: "int \<Rightarrow> string" where
  "str_int i = (if i < 0 then CHR ''-'' # str_nat (nat (- i)) else str_nat (nat i))"

text \<open>\<^verbatim>\<open>sep.join(xs)\<close>.\<close>

fun join :: "string \<Rightarrow> string list \<Rightarrow> string" where
  "join sep [] = []"
| "join sep [x] = x"
| "join sep (x # y # ys) = x @ sep @ join sep (y # ys)"

text \<open>
  \<^verbatim>\<open>repr(s)\<close> of a \<^verbatim>\<open>str\<close>, as CPython's \<^verbatim>\<open>unicode_repr\<close> writes it: the text goes
  between single quotes, or between double quotes when it has a single quote and no
  double quote; the quote character and the backslash are escaped with a backslash, tab,
  newline and carriage return are written \<^verbatim>\<open>\t\<close>, \<^verbatim>\<open>\n\<close>, \<^verbatim>\<open>\r\<close>, any other control
  character as \<^verbatim>\<open>\xNN\<close>. Bytes from 128 on (the UTF-8 encoding of non-ASCII text) are
  copied, as CPython does for printable non-ASCII characters.
\<close>

definition hex2 :: "nat \<Rightarrow> string" where
  "hex2 n = [''0123456789abcdef'' ! ((n div 16) mod 16), ''0123456789abcdef'' ! (n mod 16)]"

definition repr_char :: "char \<Rightarrow> char \<Rightarrow> string" where
  "repr_char quote c =
     (if c = quote \<or> c = CHR 0x5C then [CHR 0x5C, c]
      else if c = CHR 0x09 then [CHR 0x5C, CHR ''t'']
      else if c = CHR 0x0A then [CHR 0x5C, CHR ''n'']
      else if c = CHR 0x0D then [CHR 0x5C, CHR ''r'']
      else if (of_char c :: nat) < 32 \<or> c = CHR 0x7F
        then [CHR 0x5C, CHR ''x''] @ hex2 (of_char c)
      else [c])"

definition repr_str :: "string \<Rightarrow> string" where
  "repr_str s =
     (let quote = (if CHR 0x27 \<in> set s \<and> CHR 0x22 \<notin> set s then CHR 0x22 else CHR 0x27)
      in [quote] @ concat (map (repr_char quote) s) @ [quote])"

text \<open>\<^verbatim>\<open>repr(xs)\<close> of a list of strings, the text an f-string inserts for it.\<close>

definition repr_list :: "string list \<Rightarrow> string" where
  "repr_list xs = ''['' @ join '', '' (map repr_str xs) @ '']''"

text \<open>
  \<^verbatim>\<open>sorted(set(xs) - set(ys))\<close>: the distinct elements of \<open>xs\<close> that are not in \<open>ys\<close>,
  in ascending order.
\<close>

definition sorted_difference :: "string list \<Rightarrow> string list \<Rightarrow> string list" where
  "sorted_difference xs ys = sort (remdups (filter (\<lambda>x. x \<notin> set ys) xs))"

text \<open>
  Rounding half to even, at the unit and at the second decimal, on the reals. The
  built-in \<^verbatim>\<open>round(x, 2)\<close> works on binary floating point and is an argument of the
  route that calls it; this function stands in for it in the examples, whose values
  (500 and -1000) are exact in floating point and have no digit to round.
\<close>

definition py_round :: "real \<Rightarrow> int" where
  "py_round x =
     (let f = \<lfloor>x\<rfloor>; d = x - of_int f
      in if d < 1 / 2 then f else if 1 / 2 < d then f + 1
         else if even f then f else f + 1)"

definition round2 :: "real \<Rightarrow> real" where
  "round2 x = of_int (py_round (x * 100)) / 100"

section \<open>Exceptions (src/core/exceptions.py)\<close>

text \<open>
  \<^verbatim>\<open>ModelMonitoringException\<close> and its subclasses carry a message and a details
  dictionary. The only details the repository ever passes is
  \<^verbatim>\<open>{"missing_features": [...]}\<close>, so the details are that list, or \<open>None\<close> for
  the empty dictionary. \<open>PyException\<close> stands for every exception class that is not
  one of the repository's (pydantic's validation error, for instance).
\<close>

datatype exn_kind =
  ModelLoadError | ConfigurationError | DatabaseError | DriftDetectionError
| ValidationError | PredictionError | PyException

datatype exn = Exn (kind: exn_kind) (message: string) (details: "string list option")

text \<open>\<^verbatim>\<open>ModelMonitoringException.__str__\<close>; a non-empty dictionary is truthy.\<close>

definition str_exn :: "exn \<Rightarrow> string" where
  "str_exn e =
     (case details e of
        Some ms \<Rightarrow> message e @ '' | Details: {'missing_features': '' @ repr_list ms @ ''}''
      | None \<Rightarrow> message e)"

section \<open>Storage (src/storage/database.py)\<close>

text \<open>
  One row of \<^verbatim>\<open>live_predictions\<close>. The features column holds the text that
  \<^verbatim>\<open>json.dumps\<close> produced.
\<close>

record prediction_row =
  row_id :: int
  row_timestamp :: string
  row_features :: string
  row_prediction :: int
  row_probability :: real
  row_latency_ms :: real

text \<open>
  What is wrong with the database file, if anything. \<open>ConnectError m\<close>: the file cannot
  be opened, and \<^verbatim>\<open>sqlite3.connect\<close> raises \<^verbatim>\<open>sqlite3.Error(m)\<close>.
  \<open>StatementError m\<close>: the connection opens, and every statement that touches the table
  raises \<^verbatim>\<open>sqlite3.Error(m)\<close> (the file is locked or corrupt, the table is gone);
  a statement that touches no table, such as \<^verbatim>\<open>SELECT 1\<close>, still runs.
\<close>

datatype sqlite_error = ConnectError string | StatementError string

fun error_text :: "sqlite_error \<Rightarrow> string" where
  "error_text (ConnectError m) = m"
| "error_text (StatementError m) = m"

text \<open>
  The database file as the program sees it: its fault, if any; the rows of the table in
  insertion order; and the largest row id ever assigned, which \<^verbatim>\<open>AUTOINCREMENT\<close>
  keeps in \<^verbatim>\<open>sqlite_sequence\<close>.
\<close>

record database =
  fault :: "sqlite_error option"
  live_predictions :: "prediction_row list"
  seq :: int

text \<open>What the body of a \<^verbatim>\<open>with get_connection()\<close> block can raise.\<close>

datatype body_error = SqliteError string | OtherError string

text \<open>
  \<^verbatim>\<open>DatabaseManager.get_connection\<close>, a context manager, applied to the body of its
  \<^verbatim>\<open>with\<close> block: commit on normal completion; on an exception roll back (the
  database is left as it was) and raise \<^verbatim>\<open>DatabaseError\<close>.
\<close>

definition get_connection ::
  "database \<Rightarrow> (database \<Rightarrow> body_error + 'a \<times> database) \<Rightarrow> exn + 'a \<times> database" where
  "get_connection db body =
     (case fault db of
        Some (ConnectError m) \<Rightarrow>
          Inl (Exn DatabaseError (''Database operation failed: '' @ m) None)
      | _ \<Rightarrow>
          (case body db of
             Inl (SqliteError m) \<Rightarrow>
               Inl (Exn DatabaseError (''Database operation failed: '' @ m) None)
           | Inl (OtherError m) \<Rightarrow>
               Inl (Exn DatabaseError (''Unexpected database error: '' @ m) None)
           | Inr (r, db') \<Rightarrow> Inr (r, db')))"

text \<open>
  \<^verbatim>\<open>conn.execute\<close> or \<^verbatim>\<open>pd.read_sql\<close> of a statement on \<^verbatim>\<open>live_predictions\<close>,
  whose outcome on a sound file is the second argument.
\<close>

definition execute_statement :: "database \<Rightarrow> 'a \<Rightarrow> body_error + 'a" where
  "execute_statement db outcome =
     (case fault db of
        Some (StatementError m) \<Rightarrow> Inl (SqliteError m)
      | _ \<Rightarrow> Inr outcome)"

text \<open>
  \<^verbatim>\<open>DatabaseManager.health_check\<close>: a connection and \<^verbatim>\<open>SELECT 1\<close>, which touches
  no table; every exception is caught.
\<close>

definition DatabaseManager_health_check :: "database \<Rightarrow> bool" where
  "DatabaseManager_health_check db =
     (case get_connection db (\<lambda>d. Inr ((), d)) of Inl e \<Rightarrow> False | Inr r \<Rightarrow> True)"

subsection \<open>The SQL statements\<close>

text \<open>
  \<^verbatim>\<open>INSERT\<close> into a table with an \<^verbatim>\<open>AUTOINCREMENT\<close> key: the new id is one more than
  the largest id that ever existed in the table.
\<close>

definition next_rowid :: "database \<Rightarrow> int" where
  "next_rowid db = 1 + fold max (map row_id (live_predictions db)) (seq db)"

definition sql_insert ::
  "database \<Rightarrow> string \<Rightarrow> string \<Rightarrow> int \<Rightarrow> real \<Rightarrow> real \<Rightarrow> int \<times> database" where
  "sql_insert db ts blob pred prob lat =
     (let i = next_rowid db;
          r = \<lparr>row_id = i, row_timestamp = ts, row_features = blob,
               row_prediction = pred, row_probability = prob, row_latency_ms = lat\<rparr>
      in (i, db\<lparr>live_predictions := live_predictions db @ [r], seq := i\<rparr>))"

text \<open>
  \<^verbatim>\<open>ORDER BY timestamp DESC\<close>. SQLite leaves the order of rows with equal timestamps
  open; the model takes the backward scan of the index on timestamp, which returns them
  by descending row id.
\<close>

definition order_by_timestamp_desc :: "prediction_row list \<Rightarrow> prediction_row list" where
  "order_by_timestamp_desc rows = rev (sort_key row_timestamp rows)"

text \<open>
  \<^verbatim>\<open>LIMIT l OFFSET k\<close>: a negative limit is no limit, a negative offset is no offset.
\<close>

definition sql_limit :: "int \<Rightarrow> int \<Rightarrow> 'a list \<Rightarrow> 'a list" where
  "sql_limit l k xs = (let ys = drop (nat k) xs in if l < 0 then ys else take (nat l) ys)"

section \<open>Prediction repository (src/repositories/prediction_repository.py)\<close>

text \<open>
  A feature dictionary \<^verbatim>\<open>Dict[str, float]\<close>: its items in insertion order, looked up
  with \<^const>\<open>map_of\<close>. Floats are modelled as reals.
\<close>

type_synonym feature_dict = "(string \<times> real) list"

text \<open>
  The \<^verbatim>\<open>json\<close> module of the standard library, which the repository calls and does not
  define: \<open>dumps\<close> is \<^verbatim>\<open>json.dumps\<close> on a feature dictionary, \<open>loads\<close> is
  \<^verbatim>\<open>json.loads\<close>, whose \<open>Inl m\<close> is a raised \<^verbatim>\<open>JSONDecodeError\<close> with text \<open>m\<close>.
\<close>

record json =
  dumps :: "feature_dict \<Rightarrow> string"
  loads :: "string \<Rightarrow> string + feature_dict"

text \<open>One element of the list that \<^verbatim>\<open>get_predictions\<close> returns.\<close>

record prediction_dict =
  pd_id :: int
  pd_timestamp :: string
  pd_features :: feature_dict
  pd_prediction :: int
  pd_probability :: real
  pd_latency_ms :: real

text \<open>
  \<^verbatim>\<open>save_prediction\<close>. \<open>now\<close> is what \<^verbatim>\<open>datetime.utcnow().isoformat()\<close> returns at
  the call. Every exception is raised again as a \<^verbatim>\<open>DatabaseError\<close>.
\<close>

definition save_prediction ::
  "json \<Rightarrow> string \<Rightarrow> database \<Rightarrow> feature_dict \<Rightarrow> int \<Rightarrow> real \<Rightarrow> real \<Rightarrow> string option
     \<Rightarrow> exn + int \<times> database" where
  "save_prediction js now db features prediction probability latency_ms timestamp =
     (let ts = (case timestamp of None \<Rightarrow> now | Some t \<Rightarrow> t)
      in case get_connection db
                (\<lambda>d. execute_statement d
                        (sql_insert d ts (dumps js features) prediction probability latency_ms))
         of Inl e \<Rightarrow> Inl (Exn DatabaseError (''Failed to save prediction: '' @ str_exn e) None)
          | Inr (i, db') \<Rightarrow> Inr (i, db'))"

text \<open>Python truthiness of an \<^verbatim>\<open>Optional[int]\<close> and of an \<^verbatim>\<open>Optional[str]\<close>.\<close>

definition truthy_int :: "int option \<Rightarrow> bool" where
  "truthy_int l = (case l of None \<Rightarrow> False | Some n \<Rightarrow> n \<noteq> 0)"

definition truthy_str :: "string option \<Rightarrow> bool" where
  "truthy_str s = (case s of None \<Rightarrow> False | Some t \<Rightarrow> t \<noteq> [])"

text \<open>The loop of \<^verbatim>\<open>get_predictions\<close> over the fetched rows.\<close>

fun rows_to_dicts :: "json \<Rightarrow> prediction_row list \<Rightarrow> body_error + prediction_dict list" where
  "rows_to_dicts js [] = Inr []"
| "rows_to_dicts js (r # rs) =
     (case loads js (row_features r) of
        Inl m \<Rightarrow> Inl (OtherError m)
      | Inr f \<Rightarrow>
          (case rows_to_dicts js rs of
             Inl e \<Rightarrow> Inl e
           | Inr ds \<Rightarrow>
               Inr (\<lparr>pd_id = row_id r, pd_timestamp = row_timestamp r, pd_features = f,
                     pd_prediction = row_prediction r, pd_probability = row_probability r,
                     pd_latency_ms = row_latency_ms r\<rparr> # ds)))"

text \<open>The statement that \<^verbatim>\<open>get_predictions\<close> builds, run on the table.\<close>

definition select_predictions ::
  "prediction_row list \<Rightarrow> int option \<Rightarrow> int \<Rightarrow> string option \<Rightarrow> string option
     \<Rightarrow> prediction_row list" where
  "select_predictions table limit offset start_timestamp end_timestamp =
     (let r1 = (if truthy_str start_timestamp
                then filter (\<lambda>r. the start_timestamp \<le> row_timestamp r) table else table);
          r2 = (if truthy_str end_timestamp
                then filter (\<lambda>r. row_timestamp r \<le> the end_timestamp) r1 else r1);
          r3 = order_by_timestamp_desc r2
      in if truthy_int limit then sql_limit (the limit) offset r3 else r3)"

definition get_predictions ::
  "json \<Rightarrow> database \<Rightarrow> int option \<Rightarrow> int \<Rightarrow> string option \<Rightarrow> string option
     \<Rightarrow> exn + prediction_dict list" where
  "get_predictions js db limit offset start_timestamp end_timestamp =
     (case get_connection db
             (\<lambda>d. case execute_statement d
                          (select_predictions (live_predictions d) limit offset
                             start_timestamp end_timestamp)
                   of Inl e \<Rightarrow> Inl e
                    | Inr rows \<Rightarrow>
                        (case rows_to_dicts js rows of
                           Inl e \<Rightarrow> Inl e | Inr ds \<Rightarrow> Inr (ds, d)))
      of Inl e \<Rightarrow> Inl (Exn DatabaseError (''Failed to get predictions: '' @ str_exn e) None)
       | Inr (ds, d) \<Rightarrow> Inr ds)"

subsection \<open>Feature tables\<close>

text \<open>
  A pandas \<^verbatim>\<open>DataFrame\<close> as far as the services look at it: the number of rows and
  the columns in order, each with its label and its cells (\<open>None\<close> is NaN).
\<close>

record dataframe =
  index_len :: nat
  cols :: "(string \<times> real option list) list"

definition columns :: "dataframe \<Rightarrow> string list" where
  "columns df = map fst (cols df)"

text \<open>\<^verbatim>\<open>df.empty\<close>: some axis has length zero. \<^verbatim>\<open>pd.DataFrame()\<close>: no rows, no columns.\<close>

definition empty_df :: "dataframe \<Rightarrow> bool" where
  "empty_df df = (index_len df = 0 \<or> cols df = [])"

definition DataFrame :: dataframe where
  "DataFrame = \<lparr>index_len = 0, cols = []\<rparr>"

text \<open>
  \<^verbatim>\<open>pd.DataFrame(records)\<close> for a list of dictionaries: one row per dictionary, one
  column per key in order of first appearance, NaN where a dictionary lacks the key.
\<close>

definition DataFrame_of_records :: "feature_dict list \<Rightarrow> dataframe" where
  "DataFrame_of_records ds =
     \<lparr>index_len = length ds,
      cols = map (\<lambda>k. (k, map (\<lambda>d. map_of d k) ds))
                 (rev (remdups (rev (concat (map (map fst) ds)))))\<rparr>"

text \<open>\<^verbatim>\<open>df["features"].apply(json.loads)\<close>.\<close>

fun load_features :: "json \<Rightarrow> prediction_row list \<Rightarrow> body_error + feature_dict list" where
  "load_features js [] = Inr []"
| "load_features js (r # rs) =
     (case loads js (row_features r) of
        Inl m \<Rightarrow> Inl (OtherError m)
      | Inr f \<Rightarrow> (case load_features js rs of Inl e \<Rightarrow> Inl e | Inr fs \<Rightarrow> Inr (f # fs)))"

text \<open>The statement that \<^verbatim>\<open>get_feature_data\<close> builds, run on the table.\<close>

definition select_features :: "prediction_row list \<Rightarrow> int option \<Rightarrow> prediction_row list" where
  "select_features table limit =
     (let r = order_by_timestamp_desc table
      in if truthy_int limit then sql_limit (the limit) 0 r else r)"

definition get_feature_data :: "json \<Rightarrow> database \<Rightarrow> int option \<Rightarrow> exn + dataframe" where
  "get_feature_data js db limit =
     (case get_connection db
             (\<lambda>d. case execute_statement d (select_features (live_predictions d) limit)
                   of Inl e \<Rightarrow> Inl e
                    | Inr rows \<Rightarrow>
                        if rows = [] then Inr (DataFrame, d)
                        else (case load_features js rows of
                                Inl e \<Rightarrow> Inl e
                              | Inr fs \<Rightarrow> Inr (DataFrame_of_records fs, d)))
      of Inl e \<Rightarrow> Inl (Exn DatabaseError (''Failed to get feature data: '' @ str_exn e) None)
       | Inr (df, d) \<Rightarrow> Inr df)"

section \<open>Model service (src/services/model_service.py)\<close>

text \<open>
  The fitted scikit-learn pipeline that \<^verbatim>\<open>joblib.load\<close> returns, as the service uses
  it on the one-row frame whose cells, in feature-list order, are the argument:
  \<open>clf_predict\<close> is \<^verbatim>\<open>int(model.predict(df)[0])\<close> and \<open>clf_predict_proba\<close> is
  \<^verbatim>\<open>float(model.predict_proba(df)[0][1])\<close>; \<open>Inl m\<close> is a raised exception with
  text \<open>m\<close>.
\<close>

record classifier =
  clf_predict :: "real list \<Rightarrow> string + int"
  clf_predict_proba :: "real list \<Rightarrow> string + real"

text \<open>
  A file of the artifacts directory: absent, present but failing to load with the given
  exception text, or loading to a value.
\<close>

datatype 'a disk_file = Missing | Unreadable string | Content 'a

text \<open>What \<^verbatim>\<open>json.load\<close> makes of \<^verbatim>\<open>feature_list.json\<close>.\<close>

datatype features_json = JsonList "string list" | JsonOther

record artifacts =
  model_file :: "classifier disk_file"
  features_file :: "features_json disk_file"

text \<open>\<^verbatim>\<open>Path.exists()\<close>.\<close>

fun path_exists :: "'a disk_file \<Rightarrow> bool" where
  "path_exists Missing = False"
| "path_exists (Unreadable m) = True"
| "path_exists (Content x) = True"

text \<open>
  The attributes of a \<^verbatim>\<open>ModelService\<close>. A value that is not a list, which the source
  leaves in \<^verbatim>\<open>feature_list\<close> when the \<^verbatim>\<open>isinstance\<close> check raises, is kept as
  \<open>None\<close>: with \<^verbatim>\<open>_loaded\<close> false no method reads the attribute before
  \<^verbatim>\<open>load_model\<close> assigns it again.
\<close>

record model_service =
  model_path :: string
  features_path :: string
  model :: "classifier option"
  feature_list :: "string list option"
  loaded :: bool


text \<open>
  \<^verbatim>\<open>load_model\<close>: the exception raised, if any, and the service afterwards. The
  assignments made before a failure stay.
\<close>

definition load_model :: "artifacts \<Rightarrow> model_service \<Rightarrow> exn option \<times> model_service" where
  "load_model art ms =
     (if loaded ms then (None, ms)
      else if \<not> path_exists (model_file art) then
        (Some (Exn ModelLoadError
           (''Model file not found: Model file not found at '' @ model_path ms) None), ms)
      else if \<not> path_exists (features_file art) then
        (Some (Exn ModelLoadError
           (''Model file not found: Feature list not found at '' @ features_path ms) None), ms)
      else
        (case model_file art of
           Unreadable m \<Rightarrow> (Some (Exn ModelLoadError (''Model loading failed: '' @ m) None), ms)
         | Missing \<Rightarrow> (Some (Exn ModelLoadError
             (''Model file not found: Model file not found at '' @ model_path ms) None), ms)
         | Content clf \<Rightarrow>
             (let ms1 = ms\<lparr>model := Some clf\<rparr>
              in case features_file art of
                   Unreadable m \<Rightarrow>
                     (Some (Exn ModelLoadError (''Model loading failed: '' @ m) None), ms1)
                 | Missing \<Rightarrow> (Some (Exn ModelLoadError
                     (''Model file not found: Feature list not found at '' @ features_path ms)
                     None), ms1)
                 | Content JsonOther \<Rightarrow>
                     (Some (Exn ModelLoadError
                        ''Model loading failed: Feature list must be a list'' None),
                      ms1\<lparr>feature_list := None\<rparr>)
                 | Content (JsonList fl) \<Rightarrow>
                     (let ms2 = ms1\<lparr>feature_list := Some fl\<rparr>
                      in if length fl = 0 then
                           (Some (Exn ModelLoadError
                              ''Model loading failed: Feature list cannot be empty'' None), ms2)
                         else (None, ms2\<lparr>loaded := True\<rparr>)))))"

definition is_loaded :: "model_service \<Rightarrow> bool" where
  "is_loaded ms = (loaded ms \<and> model ms \<noteq> None \<and> feature_list ms \<noteq> None)"

text \<open>The dictionary that \<^verbatim>\<open>predict\<close> returns.\<close>

record prediction_result =
  res_prediction :: int
  res_probability :: real

text \<open>
  \<^verbatim>\<open>df[self.feature_list]\<close> on the one-row frame of the feature dictionary: the cells
  in feature-list order; \<open>None\<close> is the \<^verbatim>\<open>KeyError\<close> of a label that is not a column.
\<close>

definition select_row :: "feature_dict \<Rightarrow> string list \<Rightarrow> real list option" where
  "select_row features fl = those (map (map_of features) fl)"

text \<open>
  \<^verbatim>\<open>ModelService.predict\<close>. A \<^verbatim>\<open>PredictionError\<close> passes through, any other
  exception becomes one.
\<close>

definition predict :: "model_service \<Rightarrow> feature_dict \<Rightarrow> exn + prediction_result" where
  "predict ms features =
     (if \<not> is_loaded ms then
        Inl (Exn ModelLoadError ''Model is not loaded. Call load_model() first.'' None)
      else
        (case (model ms, feature_list ms) of
           (Some clf, Some fl) \<Rightarrow>
             (let missing_features = sorted_difference fl (map fst features)
              in if missing_features \<noteq> [] then
                   Inl (Exn PredictionError
                          (''Missing features: '' @ repr_list missing_features)
                          (Some missing_features))
                 else
                   (case select_row features fl of
                      None \<Rightarrow> Inl (Exn PredictionError ''Prediction failed: KeyError'' None)
                    | Some row \<Rightarrow>
                        (case clf_predict clf row of
                           Inl m \<Rightarrow> Inl (Exn PredictionError (''Prediction failed: '' @ m) None)
                         | Inr prediction \<Rightarrow>
                             (case clf_predict_proba clf row of
                                Inl m \<Rightarrow>
                                  Inl (Exn PredictionError (''Prediction failed: '' @ m) None)
                              | Inr probability \<Rightarrow>
                                  Inr \<lparr>res_prediction = prediction,
                                       res_probability = probability\<rparr>))))
         | _ \<Rightarrow> Inl (Exn ModelLoadError ''Model is not loaded. Call load_model() first.'' None)))"

definition get_feature_list :: "model_service \<Rightarrow> exn + string list" where
  "get_feature_list ms =
     (if \<not> is_loaded ms then
        Inl (Exn ModelLoadError ''Model is not loaded. Call load_model() first.'' None)
      else (case feature_list ms of
              Some fl \<Rightarrow> Inr fl
            | None \<Rightarrow>
                Inl (Exn ModelLoadError ''Model is not loaded. Call load_model() first.'' None)))"

definition reload_model :: "artifacts \<Rightarrow> model_service \<Rightarrow> exn option \<times> model_service" where
  "reload_model art ms =
     load_model art (ms\<lparr>loaded := False, model := None, feature_list := None\<rparr>)"

section \<open>Monitoring service (src/services/monitoring_service.py)\<close>

text \<open>The settings the monitoring service reads (src/config/settings.py).\<close>

record settings =
  min_records_for_drift :: int
  settings_reference_data_path :: string
  artifacts_dir :: string

record monitoring_service =
  reference_data_path :: string
  min_records :: int

text \<open>
  \<^verbatim>\<open>MonitoringService.__init__\<close>: an argument that is \<^verbatim>\<open>None\<close> or falsy gives way to
  the setting. The repository attribute is the database, which the operations below take
  as an argument.
\<close>

definition MonitoringService_init ::
  "settings \<Rightarrow> string option \<Rightarrow> int option \<Rightarrow> monitoring_service" where
  "MonitoringService_init st path mr =
     \<lparr>reference_data_path = (case path of None \<Rightarrow> settings_reference_data_path st | Some p \<Rightarrow> p),
      min_records = (if truthy_int mr then the mr else min_records_for_drift st)\<rparr>"

text \<open>
  \<^verbatim>\<open>load_reference_data\<close>; the argument is the reference CSV as \<^verbatim>\<open>pd.read_csv\<close>
  reads it. A \<^verbatim>\<open>Class\<close> column is dropped.
\<close>

definition load_reference_data ::
  "monitoring_service \<Rightarrow> dataframe disk_file \<Rightarrow> exn + dataframe" where
  "load_reference_data ms ref_file =
     (case ref_file of
        Missing \<Rightarrow>
          Inl (Exn DriftDetectionError
                 (''Reference data not found: Reference data not found at ''
                    @ reference_data_path ms) None)
      | Unreadable m \<Rightarrow>
          Inl (Exn DriftDetectionError (''Failed to load reference data: '' @ m) None)
      | Content reference_df \<Rightarrow>
          Inr (if ''Class'' \<in> set (columns reference_df)
               then reference_df\<lparr>cols := filter (\<lambda>c. fst c \<noteq> ''Class'') (cols reference_df)\<rparr>
               else reference_df))"

text \<open>\<^verbatim>\<open>df[labels]\<close>: the columns with these labels, in the order of the labels.\<close>

definition select_columns :: "dataframe \<Rightarrow> string list \<Rightarrow> dataframe" where
  "select_columns df labels =
     df\<lparr>cols := concat (map (\<lambda>l. filter (\<lambda>c. fst c = l) (cols df)) labels)\<rparr>"

text \<open>
  The drift report of the evidently library, which the service calls and does not
  define: from the reference and the current frame, the HTML and the JSON text that
  \<^verbatim>\<open>save_html\<close> and \<^verbatim>\<open>save_json\<close> write, or \<open>Inl m\<close> for an exception with text
  \<open>m\<close>. The files of the report directory are a map from path to content; a write
  to it is taken to succeed.
\<close>

type_synonym report_engine = "dataframe \<Rightarrow> dataframe \<Rightarrow> string + string \<times> string"

type_synonym filesystem = "string \<Rightarrow> string option"

definition path_join :: "string \<Rightarrow> string \<Rightarrow> string" where
  "path_join dir name = dir @ ''/'' @ name"

record drift_result =
  dr_status :: string
  dr_record_count :: int
  dr_html_path :: string
  dr_json_path :: string

text \<open>
  \<^verbatim>\<open>detect_drift\<close>: the result or the exception raised, and the files afterwards. A
  \<^verbatim>\<open>DriftDetectionError\<close> passes through, any other exception becomes one.
\<close>

definition detect_drift ::
  "json \<Rightarrow> settings \<Rightarrow> report_engine \<Rightarrow> monitoring_service \<Rightarrow> dataframe disk_file
     \<Rightarrow> database \<Rightarrow> filesystem \<Rightarrow> int option \<Rightarrow> string option
     \<Rightarrow> (exn + drift_result) \<times> filesystem" where
  "detect_drift js st engine ms ref_file db fs limit report_dir =
     (case load_reference_data ms ref_file of
        Inl e \<Rightarrow> (Inl e, fs)
      | Inr reference_df \<Rightarrow>
     (case get_feature_data js db limit of
        Inl e \<Rightarrow>
          (Inl (Exn DriftDetectionError (''Drift detection failed: '' @ str_exn e) None), fs)
      | Inr live_df \<Rightarrow>
          if empty_df live_df then
            (Inl (Exn DriftDetectionError
               ''No live data found in database. Please make some predictions via the API first.''
               None), fs)
          else
            (let record_count = int (index_len live_df)
             in if record_count < min_records ms then
                  (Inl (Exn DriftDetectionError
                     (''Not enough live data for drift detection. ''
                        @ ''Found '' @ str_int record_count
                        @ '' records, but need at least '' @ str_int (min_records ms)
                        @ '' records. ''
                        @ ''Please make more predictions via the API.'') None), fs)
                else
                  (let reference_features = columns reference_df;
                       live_features = columns live_df
                   in if set reference_features \<noteq> set live_features then
                        (let missing_in_live = sorted_difference reference_features live_features;
                             extra_in_live = sorted_difference live_features reference_features;
                             error_msg =
                               ''Feature mismatch between reference and live data.''
                                 @ (if missing_in_live \<noteq> []
                                    then '' Missing in live: '' @ repr_list missing_in_live
                                    else [])
                                 @ (if extra_in_live \<noteq> []
                                    then '' Extra in live: '' @ repr_list extra_in_live
                                    else [])
                         in (Inl (Exn DriftDetectionError error_msg None), fs))
                      else
                        (case engine reference_df (select_columns live_df reference_features) of
                           Inl m \<Rightarrow>
                             (Inl (Exn DriftDetectionError
                                     (''Drift detection failed: '' @ m) None), fs)
                         | Inr (html, summary) \<Rightarrow>
                             (let dir = (case report_dir of
                                           None \<Rightarrow> artifacts_dir st | Some d \<Rightarrow> d);
                                  html_path = path_join dir ''monitoring_report.html'';
                                  json_path = path_join dir ''monitoring_summary.json''
                              in (Inr \<lparr>dr_status = ''success'',
                                       dr_record_count = record_count,
                                       dr_html_path = html_path,
                                       dr_json_path = json_path\<rparr>,
                                  (fs(html_path \<mapsto> html))(json_path \<mapsto> summary))))))))"

section \<open>Health route (src/api/routes/health.py)\<close>

record health_response =
  hr_status :: string
  hr_message :: string
  hr_model_loaded :: bool
  hr_database_connected :: bool

text \<open>
  The body of \<^verbatim>\<open>health_check\<close>, for any model service and database manager handed
  in: the arguments are the outcomes of \<^verbatim>\<open>model_service.is_loaded()\<close> and of
  \<^verbatim>\<open>db_manager.health_check()\<close>, the second being called only when the first
  returned. The \<^verbatim>\<open>except\<close> clause turns an exception of either into a response.
\<close>

definition health_check_body :: "exn + bool \<Rightarrow> exn + bool \<Rightarrow> exn + health_response" where
  "health_check_body is_loaded_call db_health_call =
     (case (case is_loaded_call of
              Inl e \<Rightarrow> Inl e
            | Inr model_loaded \<Rightarrow>
                (case db_health_call of
                   Inl e \<Rightarrow> Inl e
                 | Inr database_connected \<Rightarrow>
                     Inr (if model_loaded \<and> database_connected then
                            \<lparr>hr_status = ''healthy'', hr_message = ''API is operational'',
                             hr_model_loaded = model_loaded,
                             hr_database_connected = database_connected\<rparr>
                          else
                            (let issues = (if \<not> model_loaded then [''model not loaded''] else [])
                                   @ (if \<not> database_connected
                                      then [''database not connected''] else [])
                             in \<lparr>hr_status = ''degraded'',
                                 hr_message = ''API is degraded: '' @ join '', '' issues,
                                 hr_model_loaded = model_loaded,
                                 hr_database_connected = database_connected\<rparr>))))
      of Inl e \<Rightarrow>
           Inr \<lparr>hr_status = ''error'', hr_message = ''Health check failed: '' @ str_exn e,
                hr_model_loaded = False, hr_database_connected = False\<rparr>
       | Inr response \<Rightarrow> Inr response)"

text \<open>The route on the repository's own model service and database manager.\<close>

definition health_check :: "model_service \<Rightarrow> database \<Rightarrow> exn + health_response" where
  "health_check ms db =
     health_check_body (Inr (is_loaded ms)) (Inr (DatabaseManager_health_check db))"

section \<open>Prediction route (src/api/routes/predict.py)\<close>

text \<open>
  The request model (src/models/transaction.py) and \<^verbatim>\<open>tx.model_dump()\<close>, which lists
  the fields in declaration order.
\<close>

record transaction =
  Time :: real
  Amount :: real
  V1 :: real
  V2 :: real
  V3 :: real
  V4 :: real
  V5 :: real
  V6 :: real
  V7 :: real
  V8 :: real
  V9 :: real
  V10 :: real
  V11 :: real
  V12 :: real
  V13 :: real
  V14 :: real
  V15 :: real
  V16 :: real
  V17 :: real
  V18 :: real
  V19 :: real
  V20 :: real
  V21 :: real
  V22 :: real
  V23 :: real
  V24 :: real
  V25 :: real
  V26 :: real
  V27 :: real
  V28 :: real

definition model_dump :: "transaction \<Rightarrow> feature_dict" where
  "model_dump tx =
     [(''Time'', Time tx), (''Amount'', Amount tx), (''V1'', V1 tx), (''V2'', V2 tx),
      (''V3'', V3 tx), (''V4'', V4 tx), (''V5'', V5 tx), (''V6'', V6 tx),
      (''V7'', V7 tx), (''V8'', V8 tx), (''V9'', V9 tx), (''V10'', V10 tx),
      (''V11'', V11 tx), (''V12'', V12 tx), (''V13'', V13 tx), (''V14'', V14 tx),
      (''V15'', V15 tx), (''V16'', V16 tx), (''V17'', V17 tx), (''V18'', V18 tx),
      (''V19'', V19 tx), (''V20'', V20 tx), (''V21'', V21 tx), (''V22'', V22 tx),
      (''V23'', V23 tx), (''V24'', V24 tx), (''V25'', V25 tx), (''V26'', V26 tx),
      (''V27'', V27 tx), (''V28'', V28 tx)]"

text \<open>
  The response model (src/models/prediction.py). Its constructor validates the field
  constraints and raises pydantic's validation error, which is none of the repository's
  exception classes; the exception text is the first line of pydantic's.
\<close>

record prediction_response =
  prediction :: int
  probability :: real
  latency_ms :: real
  timestamp :: string

definition PredictionResponse ::
  "int \<Rightarrow> real \<Rightarrow> real \<Rightarrow> string \<Rightarrow> exn + prediction_response" where
  "PredictionResponse p q l t =
     (let failed = length (filter (\<lambda>ok. \<not> ok) [0 \<le> p \<and> p \<le> 1, 0 \<le> q \<and> q \<le> 1, 0 \<le> l])
      in if failed = 0 then
           Inr \<lparr>prediction = p, probability = q, latency_ms = l, timestamp = t\<rparr>
         else
           Inl (Exn PyException
                  (str_nat failed @ '' validation error'' @ (if failed = 1 then [] else ''s'')
                     @ '' for PredictionResponse'') None))"

record http_exception =
  status_code :: nat
  detail :: string

text \<open>
  What the route writes to its logger: the rendered text of an error or a warning, and
  for the one info line the values it formats.
\<close>

datatype log_record =
  LogError string
| LogWarning string
| LogPredictionMade int real real

text \<open>The \<^verbatim>\<open>except\<close> clauses of the route, in their order.\<close>

definition handle_exception :: "exn \<Rightarrow> http_exception \<times> log_record list" where
  "handle_exception e =
     (if kind e = ModelLoadError then
        (\<lparr>status_code = 503, detail = ''Model not loaded. Please check server logs.''\<rparr>,
         [LogError (''Model not loaded: '' @ str_exn e)])
      else if kind e = ValidationError then
        (\<lparr>status_code = 400, detail = str_exn e\<rparr>,
         [LogWarning (''Validation error: '' @ str_exn e)])
      else if kind e = PredictionError then
        (\<lparr>status_code = 500, detail = ''Prediction failed: '' @ str_exn e\<rparr>,
         [LogError (''Prediction error: '' @ str_exn e)])
      else
        (\<lparr>status_code = 500, detail = ''An unexpected error occurred''\<rparr>,
         [LogError (''Unexpected error during prediction: '' @ str_exn e)]))"

text \<open>
  The route \<^verbatim>\<open>predict\<close>: the response or the HTTP exception, the log records, and
  the database afterwards. \<open>start_time\<close> and \<open>end_time\<close> are the two readings of
  \<^verbatim>\<open>time.time()\<close>, which is the wall clock and can step back; \<open>now\<close> is
  \<^verbatim>\<open>datetime.utcnow().isoformat()\<close>; \<open>round_2\<close> is the built-in \<^verbatim>\<open>round(x, 2)\<close>
  on floats.
\<close>

definition predict_route ::
  "json \<Rightarrow> (real \<Rightarrow> real) \<Rightarrow> real \<Rightarrow> real \<Rightarrow> string \<Rightarrow> model_service \<Rightarrow> database
     \<Rightarrow> transaction
     \<Rightarrow> (http_exception + prediction_response) \<times> log_record list \<times> database" where
  "predict_route js round_2 start_time end_time now model_service db tx =
     (let features = model_dump tx
      in case predict model_service features of
           Inl e \<Rightarrow> (Inl (fst (handle_exception e)), snd (handle_exception e), db)
         | Inr result \<Rightarrow>
             (let prediction = res_prediction result;
                  probability = res_probability result;
                  latency_ms = round_2 ((end_time - start_time) * 1000);
                  timestamp = now;
                  saved = (case save_prediction js now db features prediction probability
                                  latency_ms (Some timestamp) of
                             Inl e \<Rightarrow>
                               ([LogError (''Failed to save prediction to database: ''
                                             @ str_exn e)], db)
                           | Inr (i, db') \<Rightarrow> ([], db'));
                  log = fst saved @ [LogPredictionMade prediction probability latency_ms]
              in case PredictionResponse prediction probability latency_ms timestamp of
                   Inl e \<Rightarrow>
                     (Inl (fst (handle_exception e)), log @ snd (handle_exception e), snd saved)
                 | Inr response \<Rightarrow> (Inr response, log, snd saved)))"

section \<open>Call sequences and sample data\<close>

text \<open>
  Repeated calls of \<^verbatim>\<open>save_prediction\<close>, each with its arguments and with the state
  of the engine at the time of the call; the result is the list of the identifiers that
  the successful calls returned. A failed call leaves the table as it was.
\<close>

record save_call =
  sc_fault :: "sqlite_error option"
  sc_now :: string
  sc_features :: feature_dict
  sc_prediction :: int
  sc_probability :: real
  sc_latency_ms :: real
  sc_timestamp :: "string option"

fun saved_ids :: "json \<Rightarrow> database \<Rightarrow> save_call list \<Rightarrow> int list" where
  "saved_ids js db [] = []"
| "saved_ids js db (c # cs) =
     (case save_prediction js (sc_now c) (db\<lparr>fault := sc_fault c\<rparr>) (sc_features c)
             (sc_prediction c) (sc_probability c) (sc_latency_ms c) (sc_timestamp c) of
        Inl e \<Rightarrow> saved_ids js db cs
      | Inr (i, db') \<Rightarrow> i # saved_ids js db' cs)"

text \<open>
  The \<^verbatim>\<open>json\<close> module on the two documents that the examples store, \<^verbatim>\<open>{}\<close> and
  \<^verbatim>\<open>{"Amount": 2.0}\<close>; outside them its values are of no import.
\<close>

definition amount_doc :: string where
  "amount_doc = ''{'' @ [CHR 0x22] @ ''Amount'' @ [CHR 0x22] @ '': 2.0}''"

definition sample_json :: json where
  "sample_json =
     \<lparr>dumps = (\<lambda>f. if f = [(''Amount'', 2)] then amount_doc else ''{}''),
      loads = (\<lambda>s. if s = amount_doc then Inr [(''Amount'', 2)]
                   else if s = ''{}'' then Inr []
                   else Inl ''Expecting value: line 1 column 1 (char 0)'')\<rparr>"

text \<open>A table of three rows, inserted in an order that is not the order of their timestamps.\<close>

definition sample_row :: "int \<Rightarrow> string \<Rightarrow> prediction_row" where
  "sample_row i ts =
     \<lparr>row_id = i, row_timestamp = ts, row_features = ''{}'', row_prediction = 0,
      row_probability = 1 / 4, row_latency_ms = 25 / 2\<rparr>"

definition sample_dict :: "int \<Rightarrow> string \<Rightarrow> prediction_dict" where
  "sample_dict i ts =
     \<lparr>pd_id = i, pd_timestamp = ts, pd_features = [], pd_prediction = 0,
      pd_probability = 1 / 4, pd_latency_ms = 25 / 2\<rparr>"

definition sample_db :: database where
  "sample_db =
     \<lparr>fault = None,
      live_predictions =
        [sample_row 1 ''2024-01-02T00:00:00'', sample_row 2 ''2024-01-01T00:00:00'',
         sample_row 3 ''2024-01-03T00:00:00''],
      seq = 3\<rparr>"

definition empty_db :: database where
  "empty_db = \<lparr>fault = None, live_predictions = [], seq = 0\<rparr>"

text \<open>
  A table of three rows with the features \<^verbatim>\<open>{"Amount": 2.0}\<close>, settings with the
  default threshold, a reference file with the columns \<^verbatim>\<open>Time\<close>, \<^verbatim>\<open>V1\<close> and
  \<^verbatim>\<open>Class\<close>, and a report that renders to fixed texts.
\<close>

definition feature_row :: "int \<Rightarrow> string \<Rightarrow> prediction_row" where
  "feature_row i ts =
     \<lparr>row_id = i, row_timestamp = ts, row_features = amount_doc, row_prediction = 1,
      row_probability = 3 / 4, row_latency_ms = 10\<rparr>"

definition feature_db :: database where
  "feature_db =
     \<lparr>fault = None,
      live_predictions =
        [feature_row 1 ''2024-01-01T00:00:00'', feature_row 2 ''2024-01-02T00:00:00'',
         feature_row 3 ''2024-01-03T00:00:00''],
      seq = 3\<rparr>"

definition sample_settings :: settings where
  "sample_settings =
     \<lparr>min_records_for_drift = 500,
      settings_reference_data_path = ''data/reference/reference_data.csv'',
      artifacts_dir = ''artifacts''\<rparr>"

definition sample_reference :: dataframe where
  "sample_reference =
     \<lparr>index_len = 2,
      cols = [(''Time'', [Some 0, Some 1]), (''V1'', [Some 1, Some 2]),
              (''Class'', [Some 0, Some 1])]\<rparr>"

definition sample_engine :: report_engine where
  "sample_engine reference_df current_df = Inr (''<html></html>'', ''{}'')"

text \<open>A classifier that flags a row whose cells sum to more than 100, and its artifacts.\<close>

definition sample_classifier :: classifier where
  "sample_classifier =
     \<lparr>clf_predict = (\<lambda>x. Inr (if 100 < sum_list x then 1 else 0)),
      clf_predict_proba = (\<lambda>x. Inr (if 100 < sum_list x then 3 / 4 else 1 / 4))\<rparr>"



definition sample_service :: model_service where
  "sample_service =
     \<lparr>model_path = ''artifacts/model.pkl'', features_path = ''artifacts/feature_list.json'',
      model = Some sample_classifier, feature_list = Some [''Time'', ''Amount'', ''V1''],
      loaded = True\<rparr>"

text \<open>A request: time 0, amount 149, \<^verbatim>\<open>V1\<close> minus one, every other feature 0.\<close>

definition sample_transaction :: transaction where
  "sample_transaction =
     \<lparr>Time = 0, Amount = 149, V1 = - 1, V2 = 0, V3 = 0, V4 = 0, V5 = 0, V6 = 0,
      V7 = 0, V8 = 0, V9 = 0, V10 = 0, V11 = 0, V12 = 0, V13 = 0, V14 = 0, V15 = 0,
      V16 = 0, V17 = 0, V18 = 0, V19 = 0, V20 = 0, V21 = 0, V22 = 0, V23 = 0,
      V24 = 0, V25 = 0, V26 = 0, V27 = 0, V28 = 0\<rparr>"

text \<open>
  The table of three rows in a file that is locked, and in a file that cannot be opened.
\<close>

definition locked_db :: database where
  "locked_db = feature_db\<lparr>fault := Some (StatementError ''database is locked'')\<rparr>"

definition unreachable_db :: database where
  "unreachable_db = feature_db\<lparr>fault := Some (ConnectError ''unable to open database file'')\<rparr>"

section \<open>Verification: storage and repository\<close>

subsection \<open>Connections\<close>

lemma get_connection_ok:
  "fault db = None \<Longrightarrow> body db = Inr (r, d) \<Longrightarrow> get_connection db body = Inr (r, d)"
  by (simp add: get_connection_def)

lemma execute_statement_ok [simp]:
  "fault db = None \<Longrightarrow> execute_statement db outcome = Inr outcome"
  by (simp add: execute_statement_def)

text \<open>A transaction that starts with a statement on the table fails on every fault.\<close>

lemma get_connection_fault:
  "fault db = Some x \<Longrightarrow>
   get_connection db (\<lambda>d. case execute_statement d (q d) of Inl e \<Rightarrow> Inl e | Inr y \<Rightarrow> k y d) =
     Inl (Exn DatabaseError (''Database operation failed: '' @ error_text x) None)"
  by (cases x) (simp_all add: get_connection_def execute_statement_def)

lemma get_connection_InrD:
  "get_connection db (\<lambda>d. case execute_statement d (q d) of Inl e \<Rightarrow> Inl e | Inr y \<Rightarrow> k y d)
     = Inr (r, d') \<Longrightarrow>
   fault db = None \<and> k (q db) db = Inr (r, d')"
proof (cases "fault db")
  case None
  assume "get_connection db (\<lambda>d. case execute_statement d (q d) of Inl e \<Rightarrow> Inl e | Inr y \<Rightarrow> k y d)
     = Inr (r, d')"
  with None show ?thesis
    by (auto simp: get_connection_def split: sum.splits body_error.splits)
next
  case (Some x)
  assume "get_connection db (\<lambda>d. case execute_statement d (q d) of Inl e \<Rightarrow> Inl e | Inr y \<Rightarrow> k y d)
     = Inr (r, d')"
  with get_connection_fault[OF Some, where q = q and k = k] show ?thesis by simp
qed

lemma rows_to_dicts_InrD:
  "rows_to_dicts js rows = Inr ds \<Longrightarrow>
   length ds = length rows \<and>
   map pd_id ds = map row_id rows \<and>
   map pd_timestamp ds = map row_timestamp rows \<and>
   map pd_prediction ds = map row_prediction rows \<and>
   map pd_probability ds = map row_probability rows \<and>
   map pd_latency_ms ds = map row_latency_ms rows \<and>
   map (Inr \<circ> pd_features) ds = map (loads js \<circ> row_features) rows"
  by (induction rows arbitrary: ds) (auto split: sum.splits)

lemma get_predictions_InrD:
  "get_predictions js db limit offset s e = Inr ds \<Longrightarrow>
   fault db = None \<and>
   rows_to_dicts js (select_predictions (live_predictions db) limit offset s e) = Inr ds"
  unfolding get_predictions_def
  by (auto split: sum.splits prod.splits dest!: get_connection_InrD)

lemma sorted_desc_order_by:
  "sorted_wrt (\<lambda>a b. row_timestamp b \<le> row_timestamp a) (order_by_timestamp_desc rows)"
proof -
  have "sorted (map row_timestamp (sort_key row_timestamp rows))" by simp
  then have "sorted_wrt (\<lambda>a b. row_timestamp a \<le> row_timestamp b) (sort_key row_timestamp rows)"
    by (simp add: sorted_map)
  then show ?thesis
    unfolding order_by_timestamp_desc_def by (simp add: sorted_wrt_rev)
qed

lemma sorted_desc_sql_limit:
  "sorted_wrt P xs \<Longrightarrow> sorted_wrt P (sql_limit l k xs)"
  by (simp add: sql_limit_def Let_def sorted_wrt_drop sorted_wrt_take)

lemma set_sql_limit: "set (sql_limit l k xs) \<subseteq> set xs"
  by (auto simp: sql_limit_def Let_def dest: in_set_takeD in_set_dropD)

lemma set_order_by [simp]: "set (order_by_timestamp_desc rows) = set rows"
  by (simp add: order_by_timestamp_desc_def)

lemma sorted_desc_select:
  "sorted_wrt (\<lambda>a b. row_timestamp b \<le> row_timestamp a) (select_predictions t limit offset s e)"
  by (simp add: select_predictions_def Let_def sorted_desc_order_by sorted_desc_sql_limit)

lemma select_predictions_unlimited:
  "\<not> truthy_int limit \<Longrightarrow>
   select_predictions t limit offset s e =
     order_by_timestamp_desc
       (filter (\<lambda>r. (truthy_str s \<longrightarrow> the s \<le> row_timestamp r) \<and>
                    (truthy_str e \<longrightarrow> row_timestamp r \<le> the e)) t)"
  by (simp add: select_predictions_def Let_def)

lemma select_predictions_limited:
  "truthy_int limit \<Longrightarrow>
   select_predictions t limit offset s e =
     sql_limit (the limit) offset (select_predictions t None offset s e)"
  by (simp add: select_predictions_def Let_def truthy_int_def)

lemma select_predictions_subset:
  "set (select_predictions t limit offset s e) \<subseteq>
   {r \<in> set t. (truthy_str s \<longrightarrow> the s \<le> row_timestamp r) \<and>
               (truthy_str e \<longrightarrow> row_timestamp r \<le> the e)}"
proof (cases "truthy_int limit")
  case False
  then show ?thesis by (auto simp: select_predictions_unlimited)
next
  case True
  have "set (select_predictions t limit offset s e)
          \<subseteq> set (select_predictions t None offset s e)"
    by (simp add: select_predictions_limited[OF True] set_sql_limit)
  also have "\<dots> \<subseteq> {r \<in> set t. (truthy_str s \<longrightarrow> the s \<le> row_timestamp r) \<and>
               (truthy_str e \<longrightarrow> row_timestamp r \<le> the e)}"
    by (auto simp: select_predictions_unlimited truthy_int_def)
  finally show ?thesis .
qed

lemma select_bounds:
  assumes "r \<in> set (select_predictions t limit offset s e)"
  shows "r \<in> set t \<and> (\<forall>x. s = Some x \<and> x \<noteq> [] \<longrightarrow> x \<le> row_timestamp r)
         \<and> (\<forall>x. e = Some x \<and> x \<noteq> [] \<longrightarrow> row_timestamp r \<le> x)"
  using assms select_predictions_subset[of t limit offset s e]
  by (auto simp: truthy_str_def)

subsection \<open>Limit and offset\<close>

lemma select_zero_limit:
  "select_predictions t (Some 0) offset s e = select_predictions t None 0 s e"
  by (simp add: select_predictions_def truthy_int_def)

lemma select_no_limit_offset:
  "select_predictions t None offset s e = select_predictions t None 0 s e"
  by (simp add: select_predictions_def truthy_int_def)

lemma select_features_zero_limit:
  "select_features t (Some 0) = order_by_timestamp_desc t"
  "select_features t None = order_by_timestamp_desc t"
  by (simp_all add: select_features_def truthy_int_def)

lemma length_order_by [simp]: "length (order_by_timestamp_desc rows) = length rows"
  by (simp add: order_by_timestamp_desc_def)

subsection \<open>Order of the results\<close>

lemma dicts_sorted:
  assumes "rows_to_dicts js rows = Inr ds"
    and "sorted_wrt (\<lambda>a b. row_timestamp b \<le> row_timestamp a) rows"
  shows "sorted_wrt (\<lambda>a b. pd_timestamp b \<le> pd_timestamp a) ds"
proof -
  from assms(1) have m: "map pd_timestamp ds = map row_timestamp rows"
    by (simp add: rows_to_dicts_InrD)
  from assms(2) have "sorted_wrt (\<lambda>a b. b \<le> a) (map row_timestamp rows)"
    by (simp add: sorted_wrt_map)
  with m have "sorted_wrt (\<lambda>a b. b \<le> a) (map pd_timestamp ds)" by simp
  then show ?thesis by (simp add: sorted_wrt_map)
qed

lemma dicts_timestamps_subset:
  assumes "rows_to_dicts js rows = Inr ds" and "d \<in> set ds"
  shows "\<exists>r \<in> set rows. row_timestamp r = pd_timestamp d"
proof -
  from assms(1) have m: "map pd_timestamp ds = map row_timestamp rows"
    by (simp add: rows_to_dicts_InrD)
  from assms(2) have "pd_timestamp d \<in> set (map pd_timestamp ds)" by simp
  with m have "pd_timestamp d \<in> set (map row_timestamp rows)" by simp
  then show ?thesis by auto
qed

subsection \<open>Saving\<close>

lemma save_prediction_InrD:
  assumes "save_prediction js now db f p q l ts = Inr (i, db')"
  shows "fault db = None \<and> i = next_rowid db \<and>
         db' = db\<lparr>live_predictions := live_predictions db @
                    [\<lparr>row_id = i, row_timestamp = (case ts of None \<Rightarrow> now | Some t \<Rightarrow> t),
                      row_features = dumps js f, row_prediction = p, row_probability = q,
                      row_latency_ms = l\<rparr>],
                  seq := i\<rparr>"
  using assms unfolding save_prediction_def Let_def
  by (auto simp: get_connection_def execute_statement_def sql_insert_def Let_def
      split: sum.splits option.splits sqlite_error.splits body_error.splits)

lemma save_prediction_ok:
  assumes "fault db = None"
  shows "save_prediction js now db f p q l ts =
         Inr (next_rowid db,
              db\<lparr>live_predictions := live_predictions db @
                    [\<lparr>row_id = next_rowid db,
                      row_timestamp = (case ts of None \<Rightarrow> now | Some t \<Rightarrow> t),
                      row_features = dumps js f, row_prediction = p, row_probability = q,
                      row_latency_ms = l\<rparr>],
                  seq := next_rowid db\<rparr>)"
  using assms unfolding save_prediction_def Let_def
  by (simp add: get_connection_def sql_insert_def Let_def)

lemma save_prediction_fault:
  assumes "fault db = Some x"
  shows "save_prediction js now db f p q l ts =
         Inl (Exn DatabaseError
                (''Failed to save prediction: Database operation failed: '' @ error_text x)
                None)"
  using assms unfolding save_prediction_def Let_def
  by (cases x) (simp_all add: get_connection_def execute_statement_def str_exn_def)

subsection \<open>Queries\<close>

lemma three_saves:
  assumes f: "fault db0 = None" and e: "live_predictions db0 = []"
    and s1: "save_prediction js n1 db0 f1 p1 q1 l1 (Some T1) = Inr (i1, db1)"
    and s2: "save_prediction js n2 db1 f2 p2 q2 l2 (Some T2) = Inr (i2, db2)"
    and s3: "save_prediction js n3 db2 f3 p3 q3 l3 (Some T3) = Inr (i3, db3)"
  shows "fault db3 = None \<and>
         live_predictions db3 =
           [\<lparr>row_id = i1, row_timestamp = T1, row_features = dumps js f1, row_prediction = p1,
              row_probability = q1, row_latency_ms = l1\<rparr>,
            \<lparr>row_id = i2, row_timestamp = T2, row_features = dumps js f2, row_prediction = p2,
              row_probability = q2, row_latency_ms = l2\<rparr>,
            \<lparr>row_id = i3, row_timestamp = T3, row_features = dumps js f3, row_prediction = p3,
              row_probability = q3, row_latency_ms = l3\<rparr>]"
  using save_prediction_InrD[OF s1] save_prediction_InrD[OF s2] save_prediction_InrD[OF s3] e
  by simp

lemma newest_two_of_three:
  assumes "T1 < T2" "T2 < T3"
    and "row_timestamp r1 = T1" "row_timestamp r2 = T2" "row_timestamp r3 = T3"
  shows "select_predictions [r1, r2, r3] (Some 2) 0 None None = [r3, r2]"
proof -
  from assms have le: "T2 \<le> T3" "T1 \<le> T2" by simp_all
  with assms show ?thesis
    by (simp add: select_predictions_def truthy_str_def truthy_int_def sql_limit_def
        order_by_timestamp_desc_def)
qed

lemma get_predictions_rows:
  assumes "fault db = None"
    and "rows_to_dicts js (select_predictions (live_predictions db) limit offset s e) = Inr ds"
  shows "get_predictions js db limit offset s e = Inr ds"
  using assms by (simp add: get_predictions_def get_connection_def)

lemma load_features_length:
  "load_features js rows = Inr fs \<Longrightarrow> length fs = length rows"
  by (induction rows arbitrary: fs) (auto split: sum.splits)

text \<open>
  C10. A limit of 0 is falsy, so \<^verbatim>\<open>get_predictions\<close> and \<^verbatim>\<open>get_feature_data\<close> build
  the statement without a \<^verbatim>\<open>LIMIT\<close> clause, as they do for no limit at all: the two
  calls agree on every database, and every row of the table is selected, not none. The
  offset goes into the statement only together with the limit, so without a limit
  \<^verbatim>\<open>get_predictions\<close> returns the same for every offset: no row is skipped. On a
  sound database, with limit 0 or none and any offset, \<^verbatim>\<open>get_predictions\<close> returns the
  records of all the rows within the filters, newest first, and \<^verbatim>\<open>get_feature_data\<close>
  with limit 0 returns the frame of the features of all the rows.
\<close>

theorem limit_zero_is_no_limit:
  "get_predictions js db (Some 0) offset s e = get_predictions js db None offset s e
   \<and> get_predictions js db None offset s e = get_predictions js db None 0 s e
   \<and> get_feature_data js db (Some 0) = get_feature_data js db None
   \<and> length (select_predictions t (Some 0) offset None None) = length t
   \<and> length (select_predictions t None offset None None) = length t
   \<and> length (select_features t (Some 0)) = length t
   \<and> (fault db = None
      \<and> rows_to_dicts js
           (order_by_timestamp_desc
              (filter (\<lambda>r. (truthy_str s \<longrightarrow> the s \<le> row_timestamp r) \<and>
                           (truthy_str e \<longrightarrow> row_timestamp r \<le> the e))
                      (live_predictions db))) = Inr ds \<longrightarrow>
      get_predictions js db (Some 0) offset s e = Inr ds
      \<and> get_predictions js db None offset s e = Inr ds
      \<and> length ds =
          length (filter (\<lambda>r. (truthy_str s \<longrightarrow> the s \<le> row_timestamp r) \<and>
                              (truthy_str e \<longrightarrow> row_timestamp r \<le> the e))
                         (live_predictions db)))
   \<and> (fault db = None \<and> live_predictions db \<noteq> []
      \<and> load_features js (order_by_timestamp_desc (live_predictions db)) = Inr fs \<longrightarrow>
      get_feature_data js db (Some 0) = Inr (DataFrame_of_records fs)
      \<and> index_len (DataFrame_of_records fs) = length (live_predictions db))"
proof -
  have a: "get_predictions js db (Some 0) offset s e = get_predictions js db None offset s e"
    unfolding get_predictions_def select_zero_limit select_no_limit_offset[of _ offset] ..
  have b: "get_predictions js db None offset s e = get_predictions js db None 0 s e"
    unfolding get_predictions_def select_no_limit_offset[of _ offset] ..
  have c: "get_feature_data js db (Some 0) = get_feature_data js db None"
    unfolding get_feature_data_def select_features_zero_limit ..
  have d: "length (select_predictions t (Some 0) offset None None) = length t"
    "length (select_predictions t None offset None None) = length t"
    by (simp_all add: select_predictions_def truthy_int_def truthy_str_def)
  have e: "length (select_features t (Some 0)) = length t"
    by (simp add: select_features_zero_limit)
  have f: "fault db = None
      \<and> rows_to_dicts js
           (order_by_timestamp_desc
              (filter (\<lambda>r. (truthy_str s \<longrightarrow> the s \<le> row_timestamp r) \<and>
                           (truthy_str e \<longrightarrow> row_timestamp r \<le> the e))
                      (live_predictions db))) = Inr ds \<longrightarrow>
      get_predictions js db (Some 0) offset s e = Inr ds
      \<and> get_predictions js db None offset s e = Inr ds
      \<and> length ds =
          length (filter (\<lambda>r. (truthy_str s \<longrightarrow> the s \<le> row_timestamp r) \<and>
                              (truthy_str e \<longrightarrow> row_timestamp r \<le> the e))
                         (live_predictions db))"
  proof
    assume h: "fault db = None
      \<and> rows_to_dicts js
           (order_by_timestamp_desc
              (filter (\<lambda>r. (truthy_str s \<longrightarrow> the s \<le> row_timestamp r) \<and>
                           (truthy_str e \<longrightarrow> row_timestamp r \<le> the e))
                      (live_predictions db))) = Inr ds"
    have n: "\<not> truthy_int None" by (simp add: truthy_int_def)
    from h have g: "get_predictions js db None offset s e = Inr ds"
      by (intro get_predictions_rows) (simp_all add: select_predictions_unlimited[OF n])
    from h have "length ds = length (order_by_timestamp_desc
              (filter (\<lambda>r. (truthy_str s \<longrightarrow> the s \<le> row_timestamp r) \<and>
                           (truthy_str e \<longrightarrow> row_timestamp r \<le> the e))
                      (live_predictions db)))"
      using rows_to_dicts_InrD by blast
    with g a show "get_predictions js db (Some 0) offset s e = Inr ds
      \<and> get_predictions js db None offset s e = Inr ds
      \<and> length ds =
          length (filter (\<lambda>r. (truthy_str s \<longrightarrow> the s \<le> row_timestamp r) \<and>
                              (truthy_str e \<longrightarrow> row_timestamp r \<le> the e))
                         (live_predictions db))"
      by simp
  qed
  have g: "fault db = None \<and> live_predictions db \<noteq> []
      \<and> load_features js (order_by_timestamp_desc (live_predictions db)) = Inr fs \<longrightarrow>
      get_feature_data js db (Some 0) = Inr (DataFrame_of_records fs)
      \<and> index_len (DataFrame_of_records fs) = length (live_predictions db)"
  proof
    assume h: "fault db = None \<and> live_predictions db \<noteq> []
      \<and> load_features js (order_by_timestamp_desc (live_predictions db)) = Inr fs"
    then have "order_by_timestamp_desc (live_predictions db) \<noteq> []"
      using length_order_by[of "live_predictions db"] by (metis length_0_conv)
    with h have r: "get_feature_data js db (Some 0) = Inr (DataFrame_of_records fs)"
      by (simp add: get_feature_data_def get_connection_def select_features_zero_limit)
    from h have "length fs = length (live_predictions db)"
      using load_features_length[of js "order_by_timestamp_desc (live_predictions db)" fs]
      by simp
    with r show "get_feature_data js db (Some 0) = Inr (DataFrame_of_records fs)
      \<and> index_len (DataFrame_of_records fs) = length (live_predictions db)"
      by (simp add: DataFrame_of_records_def)
  qed
  from a b c d e f g show ?thesis by (intro conjI)
qed

theorem limit_zero_is_no_limit_witness:
  "get_predictions sample_json sample_db (Some 0) 5 None None =
     Inr [sample_dict 3 ''2024-01-03T00:00:00'', sample_dict 1 ''2024-01-02T00:00:00'',
          sample_dict 2 ''2024-01-01T00:00:00'']
   \<and> get_predictions sample_json sample_db None 5 None None =
     Inr [sample_dict 3 ''2024-01-03T00:00:00'', sample_dict 1 ''2024-01-02T00:00:00'',
          sample_dict 2 ''2024-01-01T00:00:00'']
   \<and> get_feature_data sample_json feature_db (Some 0) =
     Inr \<lparr>index_len = 3, cols = [(''Amount'', [Some 2, Some 2, Some 2])]\<rparr>"
proof -
  let ?ds = "[sample_dict 3 ''2024-01-03T00:00:00'', sample_dict 1 ''2024-01-02T00:00:00'',
          sample_dict 2 ''2024-01-01T00:00:00'']"
  let ?fs = "[[(''Amount'', 2)], [(''Amount'', 2)], [(''Amount'', 2 :: real)]]"
  have f: "fault sample_db = None" "fault feature_db = None"
    by (simp_all add: sample_db_def feature_db_def)
  have n: "live_predictions feature_db \<noteq> []" by (simp add: feature_db_def)
  have r: "rows_to_dicts sample_json
      (order_by_timestamp_desc
         (filter (\<lambda>r. (truthy_str None \<longrightarrow> the None \<le> row_timestamp r) \<and>
                      (truthy_str None \<longrightarrow> row_timestamp r \<le> the None))
                 (live_predictions sample_db))) = Inr ?ds"
    by (simp add: truthy_str_def sample_db_def sample_row_def sample_dict_def
        order_by_timestamp_desc_def sample_json_def amount_doc_def)
  have l: "load_features sample_json (order_by_timestamp_desc (live_predictions feature_db))
      = Inr ?fs"
    by code_simp
  have d: "DataFrame_of_records ?fs =
      \<lparr>index_len = 3, cols = [(''Amount'', [Some 2, Some 2, Some 2])]\<rparr>"
    by code_simp
  note t1 = limit_zero_is_no_limit[where js = sample_json and db = sample_db and offset = 5
      and s = None and e = None and ds = ?ds]
  note t2 = limit_zero_is_no_limit[where js = sample_json and db = feature_db and fs = ?fs]
  note u1 = t1[THEN conjunct2, THEN conjunct2, THEN conjunct2, THEN conjunct2,
      THEN conjunct2, THEN conjunct2, THEN conjunct1, THEN mp, OF conjI[OF f(1) r]]
  note u2 = t2[THEN conjunct2, THEN conjunct2, THEN conjunct2, THEN conjunct2,
      THEN conjunct2, THEN conjunct2, THEN conjunct2, THEN mp, OF conjI[OF f(2) conjI[OF n l]]]
  from u1 have a: "get_predictions sample_json sample_db (Some 0) 5 None None = Inr ?ds"
    by (rule conjunct1)
  from u1 have b: "get_predictions sample_json sample_db None 5 None None = Inr ?ds"
    by (rule conjunct2[THEN conjunct1])
  from u2 have "get_feature_data sample_json feature_db (Some 0)
      = Inr (DataFrame_of_records ?fs)"
    by (rule conjunct1)
  with d have c: "get_feature_data sample_json feature_db (Some 0) =
     Inr \<lparr>index_len = 3, cols = [(''Amount'', [Some 2, Some 2, Some 2])]\<rparr>"
    by simp
  from a b c show ?thesis by (intro conjI)
qed

text \<open>
  C8, as amended. Whenever \<^verbatim>\<open>get_predictions\<close> returns, its results are in descending
  order of timestamp, whatever the order of insertion; every result lies within each
  filter that is given and not the empty string, bounds included; and without a limit the
  results are exactly the rows within those bounds. An empty-string filter is falsy and
  is not applied. On a table that was empty, after three saves with timestamps
  \<open>T1 < T2 < T3\<close>, a query with limit 2 returns the records of \<open>T3\<close> and \<open>T2\<close>, in
  that order.
\<close>

theorem get_predictions_newest_first:
  "(get_predictions js db limit offset s e = Inr ds \<longrightarrow>
      sorted_wrt (\<lambda>a b. pd_timestamp b \<le> pd_timestamp a) ds
    \<and> (\<forall>d \<in> set ds. (\<forall>x. s = Some x \<and> x \<noteq> [] \<longrightarrow> x \<le> pd_timestamp d)
                    \<and> (\<forall>x. e = Some x \<and> x \<noteq> [] \<longrightarrow> pd_timestamp d \<le> x))
    \<and> (\<not> truthy_int limit \<longrightarrow>
         map pd_id ds =
           map row_id (order_by_timestamp_desc
             (filter (\<lambda>r. (truthy_str s \<longrightarrow> the s \<le> row_timestamp r) \<and>
                          (truthy_str e \<longrightarrow> row_timestamp r \<le> the e))
                     (live_predictions db)))))
   \<and> (fault db0 = None \<and> live_predictions db0 = [] \<and> T1 < T2 \<and> T2 < T3
      \<and> save_prediction js n1 db0 f1 p1 q1 l1 (Some T1) = Inr (i1, db1)
      \<and> save_prediction js n2 db1 f2 p2 q2 l2 (Some T2) = Inr (i2, db2)
      \<and> save_prediction js n3 db2 f3 p3 q3 l3 (Some T3) = Inr (i3, db3)
      \<and> loads js (dumps js f2) = Inr g2 \<and> loads js (dumps js f3) = Inr g3 \<longrightarrow>
      (\<exists>d3 d2. get_predictions js db3 (Some 2) 0 None None = Inr [d3, d2]
         \<and> pd_timestamp d3 = T3 \<and> pd_id d3 = i3 \<and> pd_timestamp d2 = T2 \<and> pd_id d2 = i2))"
proof (intro conjI impI)
  assume g: "get_predictions js db limit offset s e = Inr ds"
  let ?rows = "select_predictions (live_predictions db) limit offset s e"
  from g have r: "rows_to_dicts js ?rows = Inr ds" by (simp add: get_predictions_InrD)
  show "sorted_wrt (\<lambda>a b. pd_timestamp b \<le> pd_timestamp a) ds"
    using r sorted_desc_select by (rule dicts_sorted)
  show "\<forall>d \<in> set ds. (\<forall>x. s = Some x \<and> x \<noteq> [] \<longrightarrow> x \<le> pd_timestamp d)
                    \<and> (\<forall>x. e = Some x \<and> x \<noteq> [] \<longrightarrow> pd_timestamp d \<le> x)"
  proof
    fix d assume "d \<in> set ds"
    with r obtain row where "row \<in> set ?rows" "row_timestamp row = pd_timestamp d"
      using dicts_timestamps_subset by blast
    with select_bounds[of row] show "(\<forall>x. s = Some x \<and> x \<noteq> [] \<longrightarrow> x \<le> pd_timestamp d)
                    \<and> (\<forall>x. e = Some x \<and> x \<noteq> [] \<longrightarrow> pd_timestamp d \<le> x)"
      by metis
  qed
  assume "\<not> truthy_int limit"
  with r show "map pd_id ds =
           map row_id (order_by_timestamp_desc
             (filter (\<lambda>r. (truthy_str s \<longrightarrow> the s \<le> row_timestamp r) \<and>
                          (truthy_str e \<longrightarrow> row_timestamp r \<le> the e))
                     (live_predictions db)))"
    by (simp add: rows_to_dicts_InrD select_predictions_unlimited)
next
  assume h: "fault db0 = None \<and> live_predictions db0 = [] \<and> T1 < T2 \<and> T2 < T3
      \<and> save_prediction js n1 db0 f1 p1 q1 l1 (Some T1) = Inr (i1, db1)
      \<and> save_prediction js n2 db1 f2 p2 q2 l2 (Some T2) = Inr (i2, db2)
      \<and> save_prediction js n3 db2 f3 p3 q3 l3 (Some T3) = Inr (i3, db3)
      \<and> loads js (dumps js f2) = Inr g2 \<and> loads js (dumps js f3) = Inr g3"
  let ?r1 = "\<lparr>row_id = i1, row_timestamp = T1, row_features = dumps js f1, row_prediction = p1,
              row_probability = q1, row_latency_ms = l1\<rparr>"
  let ?r2 = "\<lparr>row_id = i2, row_timestamp = T2, row_features = dumps js f2, row_prediction = p2,
              row_probability = q2, row_latency_ms = l2\<rparr>"
  let ?r3 = "\<lparr>row_id = i3, row_timestamp = T3, row_features = dumps js f3, row_prediction = p3,
              row_probability = q3, row_latency_ms = l3\<rparr>"
  from h have db3: "fault db3 = None" "live_predictions db3 = [?r1, ?r2, ?r3]"
    using three_saves[of db0 js n1 f1 p1 q1 l1 T1 i1 db1 n2 f2 p2 q2 l2 T2 i2 db2 n3 f3 p3 q3 l3 T3 i3 db3]
    by simp_all
  from h have sel: "select_predictions [?r1, ?r2, ?r3] (Some 2) 0 None None = [?r3, ?r2]"
    by (intro newest_two_of_three[of T1 T2 T3]) simp_all
  let ?d3 = "\<lparr>pd_id = i3, pd_timestamp = T3, pd_features = g3, pd_prediction = p3,
              pd_probability = q3, pd_latency_ms = l3\<rparr>"
  let ?d2 = "\<lparr>pd_id = i2, pd_timestamp = T2, pd_features = g2, pd_prediction = p2,
              pd_probability = q2, pd_latency_ms = l2\<rparr>"
  from h have "rows_to_dicts js [?r3, ?r2] = Inr [?d3, ?d2]" by simp
  with db3 sel have "get_predictions js db3 (Some 2) 0 None None = Inr [?d3, ?d2]"
    by (simp add: get_predictions_rows)
  then show "\<exists>d3 d2. get_predictions js db3 (Some 2) 0 None None = Inr [d3, d2]
         \<and> pd_timestamp d3 = T3 \<and> pd_id d3 = i3 \<and> pd_timestamp d2 = T2 \<and> pd_id d2 = i2"
    by (intro exI[of _ ?d3] exI[of _ ?d2]) simp
qed

text \<open>
  The claim as stated fails for the end filter \<^verbatim>\<open>""\<close>: no bound is applied, and rows
  whose timestamps are above the empty string are returned.
\<close>

theorem end_filter_empty_counterexample:
  "get_predictions sample_json sample_db None 0 None (Some '''') =
     Inr [sample_dict 3 ''2024-01-03T00:00:00'', sample_dict 1 ''2024-01-02T00:00:00'',
          sample_dict 2 ''2024-01-01T00:00:00'']
   \<and> \<not> pd_timestamp (sample_dict 3 ''2024-01-03T00:00:00'') \<le> ''''"
  by code_simp

theorem get_predictions_newest_first_witness:
  "get_predictions sample_json sample_db None 0
       (Some ''2024-01-01T12:00:00'') (Some ''2024-01-03T00:00:00'') =
     Inr [sample_dict 3 ''2024-01-03T00:00:00'', sample_dict 1 ''2024-01-02T00:00:00'']
   \<and> sorted_wrt (\<lambda>a b. pd_timestamp b \<le> pd_timestamp a)
         [sample_dict 3 ''2024-01-03T00:00:00'', sample_dict 1 ''2024-01-02T00:00:00'']
   \<and> (\<exists>d3 d2.
         get_predictions sample_json
           \<lparr>fault = None,
            live_predictions = [sample_row 1 ''2024-01-01T00:00:00'',
              sample_row 2 ''2024-01-02T00:00:00'', sample_row 3 ''2024-01-03T00:00:00''],
            seq = 3\<rparr> (Some 2) 0 None None = Inr [d3, d2]
         \<and> pd_timestamp d3 = ''2024-01-03T00:00:00'' \<and> pd_id d3 = 3
         \<and> pd_timestamp d2 = ''2024-01-02T00:00:00'' \<and> pd_id d2 = 2)"
proof -
  let ?db1 = "\<lparr>fault = None, live_predictions = [sample_row 1 ''2024-01-01T00:00:00''],
               seq = 1\<rparr>"
  let ?db2 = "\<lparr>fault = None, live_predictions = [sample_row 1 ''2024-01-01T00:00:00'',
                 sample_row 2 ''2024-01-02T00:00:00''], seq = 2\<rparr>"
  let ?db3 = "\<lparr>fault = None, live_predictions = [sample_row 1 ''2024-01-01T00:00:00'',
              sample_row 2 ''2024-01-02T00:00:00'', sample_row 3 ''2024-01-03T00:00:00''],
            seq = 3\<rparr>"
  have g: "get_predictions sample_json sample_db None 0
       (Some ''2024-01-01T12:00:00'') (Some ''2024-01-03T00:00:00'') =
     Inr [sample_dict 3 ''2024-01-03T00:00:00'', sample_dict 1 ''2024-01-02T00:00:00'']"
    by code_simp
  have e: "fault empty_db = None" "live_predictions empty_db = []"
    by (simp_all add: empty_db_def)
  have lt: "''2024-01-01T00:00:00'' < ''2024-01-02T00:00:00''"
    "''2024-01-02T00:00:00'' < ''2024-01-03T00:00:00''"
    by simp_all
  have s1: "save_prediction sample_json ''2024-01-05T00:00:00'' empty_db [] 0 (1 / 4) (25 / 2)
              (Some ''2024-01-01T00:00:00'') = Inr (1, ?db1)"
    by code_simp
  have s2: "save_prediction sample_json ''2024-01-05T00:00:00'' ?db1 [] 0 (1 / 4) (25 / 2)
              (Some ''2024-01-02T00:00:00'') = Inr (2, ?db2)"
    by code_simp
  have s3: "save_prediction sample_json ''2024-01-05T00:00:00'' ?db2 [] 0 (1 / 4) (25 / 2)
              (Some ''2024-01-03T00:00:00'') = Inr (3, ?db3)"
    by code_simp
  have l: "loads sample_json (dumps sample_json []) = Inr []"
    by code_simp
  note t = get_predictions_newest_first[where js = sample_json and db = sample_db
      and limit = None and offset = 0 and s = "Some ''2024-01-01T12:00:00''"
      and e = "Some ''2024-01-03T00:00:00''"
      and ds = "[sample_dict 3 ''2024-01-03T00:00:00'', sample_dict 1 ''2024-01-02T00:00:00'']"
      and ?db0.0 = empty_db and ?T1.0 = "''2024-01-01T00:00:00''"
      and ?T2.0 = "''2024-01-02T00:00:00''" and ?T3.0 = "''2024-01-03T00:00:00''"
      and ?n1.0 = "''2024-01-05T00:00:00''" and ?n2.0 = "''2024-01-05T00:00:00''"
      and ?n3.0 = "''2024-01-05T00:00:00''"
      and ?f1.0 = "[]" and ?f2.0 = "[]" and ?f3.0 = "[]" and ?g2.0 = "[]" and ?g3.0 = "[]"
      and ?p1.0 = 0 and ?p2.0 = 0 and ?p3.0 = 0
      and ?q1.0 = "1 / 4" and ?q2.0 = "1 / 4" and ?q3.0 = "1 / 4"
      and ?l1.0 = "25 / 2" and ?l2.0 = "25 / 2" and ?l3.0 = "25 / 2"
      and ?i1.0 = 1 and ?i2.0 = 2 and ?i3.0 = 3
      and ?db1.0 = ?db1 and ?db2.0 = ?db2 and ?db3.0 = ?db3]
  from t g have a: "sorted_wrt (\<lambda>a b. pd_timestamp b \<le> pd_timestamp a)
         [sample_dict 3 ''2024-01-03T00:00:00'', sample_dict 1 ''2024-01-02T00:00:00'']"
    by blast
  from t e lt s1 s2 s3 l have b: "\<exists>d3 d2.
         get_predictions sample_json ?db3 (Some 2) 0 None None = Inr [d3, d2]
         \<and> pd_timestamp d3 = ''2024-01-03T00:00:00'' \<and> pd_id d3 = 3
         \<and> pd_timestamp d2 = ''2024-01-02T00:00:00'' \<and> pd_id d2 = 2"
    by blast
  from g a b show ?thesis by blast
qed

subsection \<open>Round trip and identifiers\<close>

lemma insort_key_snoc:
  "f x \<le> f y \<Longrightarrow> insort_key f x (zs @ [y]) = insort_key f x zs @ [y]"
  by (induction zs) auto

lemma sort_key_snoc_aux:
  "\<forall>x \<in> set xs. f x \<le> f y \<Longrightarrow>
   foldr (insort_key f) xs [y] = foldr (insort_key f) xs [] @ [y]"
  by (induction xs) (auto simp: insort_key_snoc)

lemma sort_key_snoc:
  "\<forall>x \<in> set xs. f x \<le> f y \<Longrightarrow> sort_key f (xs @ [y]) = sort_key f xs @ [y]"
  by (simp add: sort_key_def sort_key_snoc_aux)

lemma select_newest:
  assumes "\<forall>x \<in> set rows. row_timestamp x < row_timestamp r"
  shows "select_predictions (rows @ [r]) (Some 1) 0 None None = [r]"
proof -
  from assms have "\<forall>x \<in> set rows. row_timestamp x \<le> row_timestamp r" by auto
  then have "sort_key row_timestamp (rows @ [r]) = sort_key row_timestamp rows @ [r]"
    by (rule sort_key_snoc)
  then show ?thesis
    by (simp add: select_predictions_def truthy_str_def truthy_int_def sql_limit_def
        order_by_timestamp_desc_def)
qed

lemma fold_max_ge: "(a::int) \<le> fold max xs a"
  by (induction xs arbitrary: a) (auto intro: order_trans[OF max.cobounded2])

lemma fold_max_mono: "(a::int) \<le> b \<Longrightarrow> fold max xs a \<le> fold max xs b"
  by (induction xs arbitrary: a b) (auto intro!: max.mono)

lemma save_prediction_next_rowid:
  assumes "save_prediction js now db f p q l ts = Inr (j, db')"
  shows "j = next_rowid db \<and> next_rowid db < next_rowid db'"
proof -
  from save_prediction_InrD[OF assms] obtain r where
    j: "j = next_rowid db" and
    d: "db' = db\<lparr>live_predictions := live_predictions db @ [r], seq := j\<rparr>" and
    r: "row_id r = j"
    by auto
  from d r have "next_rowid db' = 1 + max j (fold max (map row_id (live_predictions db)) j)"
    by (simp add: next_rowid_def)
  with j show ?thesis by simp
qed

lemma next_rowid_fault [simp]: "next_rowid (db\<lparr>fault := x\<rparr>) = next_rowid db"
  by (simp add: next_rowid_def)

lemma saved_ids_lower_bound:
  "i \<in> set (saved_ids js db cs) \<Longrightarrow> next_rowid db \<le> i"
proof (induction cs arbitrary: db)
  case Nil
  then show ?case by simp
next
  case (Cons c cs)
  let ?d = "db\<lparr>fault := sc_fault c\<rparr>"
  show ?case
  proof (cases "save_prediction js (sc_now c) ?d (sc_features c)
             (sc_prediction c) (sc_probability c) (sc_latency_ms c) (sc_timestamp c)")
    case (Inl e)
    with Cons show ?thesis by simp
  next
    case (Inr r)
    obtain j db' where r: "r = (j, db')" by (cases r)
    from Inr r have "save_prediction js (sc_now c) ?d (sc_features c)
             (sc_prediction c) (sc_probability c) (sc_latency_ms c) (sc_timestamp c)
           = Inr (j, db')" by simp
    from save_prediction_next_rowid[OF this]
    have j: "j = next_rowid db" and db': "next_rowid db < next_rowid db'"
      by simp_all
    from Cons.prems Inr r have "i = j \<or> i \<in> set (saved_ids js db' cs)" by simp
    then show ?thesis
    proof
      assume "i = j" with j show ?thesis by simp
    next
      assume "i \<in> set (saved_ids js db' cs)"
      then have "next_rowid db' \<le> i" by (rule Cons.IH)
      with db' show ?thesis by simp
    qed
  qed
qed

lemma saved_ids_distinct: "distinct (saved_ids js db cs)"
proof (induction cs arbitrary: db)
  case Nil
  then show ?case by simp
next
  case (Cons c cs)
  let ?d = "db\<lparr>fault := sc_fault c\<rparr>"
  show ?case
  proof (cases "save_prediction js (sc_now c) ?d (sc_features c)
             (sc_prediction c) (sc_probability c) (sc_latency_ms c) (sc_timestamp c)")
    case (Inl e)
    with Cons show ?thesis by simp
  next
    case (Inr r)
    obtain j db' where r: "r = (j, db')" by (cases r)
    from Inr r have "save_prediction js (sc_now c) ?d (sc_features c)
             (sc_prediction c) (sc_probability c) (sc_latency_ms c) (sc_timestamp c)
           = Inr (j, db')" by simp
    from save_prediction_next_rowid[OF this]
    have j: "j = next_rowid db" and db': "next_rowid db < next_rowid db'"
      by simp_all
    have "j \<notin> set (saved_ids js db' cs)"
    proof
      assume "j \<in> set (saved_ids js db' cs)"
      then have "next_rowid db' \<le> j" by (rule saved_ids_lower_bound)
      with j db' show False by simp
    qed
    with Cons.IH[of db'] Inr r show ?thesis by simp
  qed
qed

text \<open>
  C7, as amended. When a save succeeds with a timestamp above every timestamp already in
  the table, and the features survive \<^verbatim>\<open>json.dumps\<close> followed by \<^verbatim>\<open>json.loads\<close>, the
  query with limit 1 on the database after the save returns exactly one record, with the
  identifier the save returned and the saved timestamp, features, prediction, probability
  and latency. The identifiers returned by repeated saves are pairwise distinct, whatever
  the arguments and whichever calls fail in between.
\<close>

theorem save_then_query_newest:
  "(save_prediction js now db f p q l ts = Inr (i, db')
      \<and> loads js (dumps js f) = Inr f
      \<and> (\<forall>r \<in> set (live_predictions db).
            row_timestamp r < (case ts of None \<Rightarrow> now | Some t \<Rightarrow> t)) \<longrightarrow>
    get_predictions js db' (Some 1) 0 None None =
      Inr [\<lparr>pd_id = i, pd_timestamp = (case ts of None \<Rightarrow> now | Some t \<Rightarrow> t),
            pd_features = f, pd_prediction = p, pd_probability = q, pd_latency_ms = l\<rparr>])
   \<and> distinct (saved_ids js db calls)"
proof (intro conjI impI)
  assume h: "save_prediction js now db f p q l ts = Inr (i, db')
      \<and> loads js (dumps js f) = Inr f
      \<and> (\<forall>r \<in> set (live_predictions db).
            row_timestamp r < (case ts of None \<Rightarrow> now | Some t \<Rightarrow> t))"
  let ?t = "case ts of None \<Rightarrow> now | Some t \<Rightarrow> t"
  let ?r = "\<lparr>row_id = i, row_timestamp = ?t, row_features = dumps js f, row_prediction = p,
             row_probability = q, row_latency_ms = l\<rparr>"
  from h have d: "fault db' = None" "live_predictions db' = live_predictions db @ [?r]"
    using save_prediction_InrD[of js now db f p q l ts i db'] by simp_all
  from h have "select_predictions (live_predictions db @ [?r]) (Some 1) 0 None None = [?r]"
    by (intro select_newest) simp
  moreover from h have "rows_to_dicts js [?r] =
      Inr [\<lparr>pd_id = i, pd_timestamp = ?t, pd_features = f, pd_prediction = p,
            pd_probability = q, pd_latency_ms = l\<rparr>]"
    by simp
  ultimately show "get_predictions js db' (Some 1) 0 None None =
      Inr [\<lparr>pd_id = i, pd_timestamp = ?t, pd_features = f, pd_prediction = p,
            pd_probability = q, pd_latency_ms = l\<rparr>]"
    using d by (simp add: get_predictions_rows)
next
  show "distinct (saved_ids js db calls)" by (rule saved_ids_distinct)
qed

text \<open>
  The claim as stated fails when the table holds a row with a later timestamp than the
  saved one: the query with limit 1 returns that row, not the saved record.
\<close>

theorem save_then_query_counterexample:
  "save_prediction sample_json ''2024-01-05T00:00:00'' sample_db [(''Amount'', 2)] 1 (3 / 4) 10
     (Some ''2024-01-01T06:00:00'') =
     Inr (4, \<lparr>fault = None,
              live_predictions =
                [sample_row 1 ''2024-01-02T00:00:00'', sample_row 2 ''2024-01-01T00:00:00'',
                 sample_row 3 ''2024-01-03T00:00:00'',
                 \<lparr>row_id = 4, row_timestamp = ''2024-01-01T06:00:00'',
                  row_features = amount_doc, row_prediction = 1, row_probability = 3 / 4,
                  row_latency_ms = 10\<rparr>],
              seq = 4\<rparr>)
   \<and> get_predictions sample_json
       \<lparr>fault = None,
        live_predictions =
          [sample_row 1 ''2024-01-02T00:00:00'', sample_row 2 ''2024-01-01T00:00:00'',
           sample_row 3 ''2024-01-03T00:00:00'',
           \<lparr>row_id = 4, row_timestamp = ''2024-01-01T06:00:00'',
            row_features = amount_doc, row_prediction = 1, row_probability = 3 / 4,
            row_latency_ms = 10\<rparr>],
        seq = 4\<rparr> (Some 1) 0 None None =
     Inr [\<lparr>pd_id = 3, pd_timestamp = ''2024-01-03T00:00:00'', pd_features = [],
           pd_prediction = 0, pd_probability = 1 / 4, pd_latency_ms = 25 / 2\<rparr>]"
  by code_simp

theorem save_then_query_newest_witness:
  "save_prediction sample_json ''2024-01-05T00:00:00'' sample_db [(''Amount'', 2)] 1 (3 / 4) 10
     (Some ''2024-01-04T00:00:00'') =
     Inr (4, \<lparr>fault = None,
              live_predictions =
                [sample_row 1 ''2024-01-02T00:00:00'', sample_row 2 ''2024-01-01T00:00:00'',
                 sample_row 3 ''2024-01-03T00:00:00'',
                 \<lparr>row_id = 4, row_timestamp = ''2024-01-04T00:00:00'',
                  row_features = amount_doc, row_prediction = 1, row_probability = 3 / 4,
                  row_latency_ms = 10\<rparr>],
              seq = 4\<rparr>)
   \<and> get_predictions sample_json
       \<lparr>fault = None,
        live_predictions =
          [sample_row 1 ''2024-01-02T00:00:00'', sample_row 2 ''2024-01-01T00:00:00'',
           sample_row 3 ''2024-01-03T00:00:00'',
           \<lparr>row_id = 4, row_timestamp = ''2024-01-04T00:00:00'',
            row_features = amount_doc, row_prediction = 1, row_probability = 3 / 4,
            row_latency_ms = 10\<rparr>],
        seq = 4\<rparr> (Some 1) 0 None None =
     Inr [\<lparr>pd_id = 4, pd_timestamp = ''2024-01-04T00:00:00'', pd_features = [(''Amount'', 2)],
           pd_prediction = 1, pd_probability = 3 / 4, pd_latency_ms = 10\<rparr>]
   \<and> distinct (saved_ids sample_json sample_db
        [\<lparr>sc_fault = None, sc_now = ''2024-01-05T00:00:00'', sc_features = [(''Amount'', 2)],
          sc_prediction = 1, sc_probability = 3 / 4, sc_latency_ms = 10, sc_timestamp = None\<rparr>,
         \<lparr>sc_fault = Some (StatementError ''database is locked''), sc_now = ''2024-01-05T00:00:01'',
          sc_features = [], sc_prediction = 0, sc_probability = 1 / 4, sc_latency_ms = 11,
          sc_timestamp = None\<rparr>,
         \<lparr>sc_fault = None, sc_now = ''2024-01-05T00:00:02'', sc_features = [],
          sc_prediction = 0, sc_probability = 1 / 4, sc_latency_ms = 12,
          sc_timestamp = None\<rparr>])
   \<and> saved_ids sample_json sample_db
        [\<lparr>sc_fault = None, sc_now = ''2024-01-05T00:00:00'', sc_features = [(''Amount'', 2)],
          sc_prediction = 1, sc_probability = 3 / 4, sc_latency_ms = 10, sc_timestamp = None\<rparr>,
         \<lparr>sc_fault = Some (StatementError ''database is locked''), sc_now = ''2024-01-05T00:00:01'',
          sc_features = [], sc_prediction = 0, sc_probability = 1 / 4, sc_latency_ms = 11,
          sc_timestamp = None\<rparr>,
         \<lparr>sc_fault = None, sc_now = ''2024-01-05T00:00:02'', sc_features = [],
          sc_prediction = 0, sc_probability = 1 / 4, sc_latency_ms = 12,
          sc_timestamp = None\<rparr>] = [4, 5]"
proof -
  let ?db' = "\<lparr>fault = None,
              live_predictions =
                [sample_row 1 ''2024-01-02T00:00:00'', sample_row 2 ''2024-01-01T00:00:00'',
                 sample_row 3 ''2024-01-03T00:00:00'',
                 \<lparr>row_id = 4, row_timestamp = ''2024-01-04T00:00:00'',
                  row_features = amount_doc, row_prediction = 1, row_probability = 3 / 4,
                  row_latency_ms = 10\<rparr>],
              seq = 4\<rparr>"
  let ?calls = "[\<lparr>sc_fault = None, sc_now = ''2024-01-05T00:00:00'', sc_features = [(''Amount'', 2)],
          sc_prediction = 1, sc_probability = 3 / 4, sc_latency_ms = 10, sc_timestamp = None\<rparr>,
         \<lparr>sc_fault = Some (StatementError ''database is locked''), sc_now = ''2024-01-05T00:00:01'',
          sc_features = [], sc_prediction = 0, sc_probability = 1 / 4, sc_latency_ms = 11,
          sc_timestamp = None\<rparr>,
         \<lparr>sc_fault = None, sc_now = ''2024-01-05T00:00:02'', sc_features = [],
          sc_prediction = 0, sc_probability = 1 / 4, sc_latency_ms = 12,
          sc_timestamp = None\<rparr>]"
  have s: "save_prediction sample_json ''2024-01-05T00:00:00'' sample_db [(''Amount'', 2)] 1
             (3 / 4) 10 (Some ''2024-01-04T00:00:00'') = Inr (4, ?db')"
    by code_simp
  have l: "loads sample_json (dumps sample_json [(''Amount'', 2)]) = Inr [(''Amount'', 2)]"
    by code_simp
  have b: "\<forall>r \<in> set (live_predictions sample_db).
             row_timestamp r < (case Some ''2024-01-04T00:00:00'' of None \<Rightarrow> ''2024-01-05T00:00:00''
                                | Some t \<Rightarrow> t)"
    by (simp add: sample_db_def sample_row_def)
  have i: "saved_ids sample_json sample_db ?calls = [4, 5]"
    by code_simp
  note t = save_then_query_newest[where js = sample_json and now = "''2024-01-05T00:00:00''"
      and db = sample_db and f = "[(''Amount'', 2)]" and p = 1 and q = "3 / 4" and l = 10
      and ts = "Some ''2024-01-04T00:00:00''" and i = 4 and db' = ?db' and calls = ?calls]
  from t s l b have g: "get_predictions sample_json ?db' (Some 1) 0 None None =
     Inr [\<lparr>pd_id = 4, pd_timestamp = ''2024-01-04T00:00:00'', pd_features = [(''Amount'', 2)],
           pd_prediction = 1, pd_probability = 3 / 4, pd_latency_ms = 10\<rparr>]"
    by simp
  from t have d: "distinct (saved_ids sample_json sample_db ?calls)" by blast
  from s g d i show ?thesis by blast
qed

section \<open>Verification: drift detection\<close>

lemma get_feature_data_empty:
  assumes "fault db = None" and "select_features (live_predictions db) limit = []"
  shows "get_feature_data js db limit = Inr DataFrame"
  using assms by (simp add: get_feature_data_def get_connection_def)

lemma sql_limit_Nil_iff: "l \<noteq> 0 \<Longrightarrow> sql_limit l 0 xs = [] \<longleftrightarrow> xs = []"
  by (auto simp: sql_limit_def)

lemma order_by_Nil_iff [simp]: "order_by_timestamp_desc rows = [] \<longleftrightarrow> rows = []"
  using length_order_by[of rows] by (metis length_0_conv)

lemma select_features_Nil_iff: "select_features t limit = [] \<longleftrightarrow> t = []"
  by (auto simp: select_features_def Let_def truthy_int_def sql_limit_Nil_iff
      split: option.splits)

lemma empty_DataFrame: "empty_df DataFrame"
  by (simp add: empty_df_def DataFrame_def)

lemma detect_drift_no_live_data:
  assumes "load_reference_data ms ref_file = Inr reference_df"
    and "get_feature_data js db limit = Inr live_df"
    and "empty_df live_df"
  shows "detect_drift js st engine ms ref_file db fs limit report_dir =
     (Inl (Exn DriftDetectionError
        ''No live data found in database. Please make some predictions via the API first.''
        None), fs)"
  using assms by (simp add: detect_drift_def)






lemma detect_drift_mismatch:
  assumes "load_reference_data ms ref_file = Inr reference_df"
    and "get_feature_data js db limit = Inr live_df"
    and "\<not> empty_df live_df"
    and "\<not> int (index_len live_df) < min_records ms"
    and "set (columns reference_df) \<noteq> set (columns live_df)"
  shows "detect_drift js st engine ms ref_file db fs limit report_dir =
     (Inl (Exn DriftDetectionError
        (''Feature mismatch between reference and live data.''
           @ (if sorted_difference (columns reference_df) (columns live_df) \<noteq> []
              then '' Missing in live: ''
                     @ repr_list (sorted_difference (columns reference_df) (columns live_df))
              else [])
           @ (if sorted_difference (columns live_df) (columns reference_df) \<noteq> []
              then '' Extra in live: ''
                     @ repr_list (sorted_difference (columns live_df) (columns reference_df))
              else [])) None), fs)"
  using assms by (simp add: detect_drift_def Let_def)

lemma sorted_difference_props:
  "set (sorted_difference xs ys) = set xs - set ys"
  "sorted (sorted_difference xs ys)"
  "distinct (sorted_difference xs ys)"
  by (auto simp: sorted_difference_def)

lemma sorted_difference_Nil_iff: "sorted_difference xs ys = [] \<longleftrightarrow> set xs \<subseteq> set ys"
proof -
  have "sorted_difference xs ys = [] \<longleftrightarrow> set (sorted_difference xs ys) = {}" by simp
  then show ?thesis by (auto simp: sorted_difference_props)
qed


text \<open>
  C4. When the statement of \<^verbatim>\<open>get_feature_data\<close> selects no row, which is when the
  table has none, the operation returns the empty frame \<^verbatim>\<open>pd.DataFrame()\<close> and raises
  nothing. When \<^verbatim>\<open>detect_drift\<close> has loaded its reference data and receives an empty
  live frame, it raises the \<^verbatim>\<open>DriftDetectionError\<close> that says no live data was found,
  and writes no file.
\<close>

theorem empty_store_is_no_live_data:
  "(fault db = None \<and> select_features (live_predictions db) limit = [] \<longrightarrow>
      get_feature_data js db limit = Inr DataFrame
      \<and> empty_df DataFrame \<and> index_len DataFrame = 0 \<and> columns DataFrame = [])
   \<and> (select_features t limit = []) = (t = [])
   \<and> (load_reference_data ms ref_file = Inr reference_df
      \<and> get_feature_data js db limit = Inr live_df \<and> empty_df live_df \<longrightarrow>
      detect_drift js st engine ms ref_file db fs limit report_dir =
        (Inl (Exn DriftDetectionError
           ''No live data found in database. Please make some predictions via the API first.''
           None), fs))"
proof (intro conjI impI)
  assume h: "fault db = None \<and> select_features (live_predictions db) limit = []"
  then show "get_feature_data js db limit = Inr DataFrame"
    by (simp add: get_feature_data_empty)
  show "empty_df DataFrame" by (rule empty_DataFrame)
  show "index_len DataFrame = 0" by (simp add: DataFrame_def)
  show "columns DataFrame = []" by (simp add: DataFrame_def columns_def)
next
  show "(select_features t limit = []) = (t = [])" by (rule select_features_Nil_iff)
next
  assume "load_reference_data ms ref_file = Inr reference_df
      \<and> get_feature_data js db limit = Inr live_df \<and> empty_df live_df"
  then show "detect_drift js st engine ms ref_file db fs limit report_dir =
        (Inl (Exn DriftDetectionError
           ''No live data found in database. Please make some predictions via the API first.''
           None), fs)"
    by (simp add: detect_drift_no_live_data)
qed

theorem empty_store_is_no_live_data_witness:
  "get_feature_data sample_json empty_db (Some 100) = Inr DataFrame
   \<and> empty_df DataFrame
   \<and> load_reference_data (MonitoringService_init sample_settings None None)
        (Content sample_reference) =
      Inr \<lparr>index_len = 2, cols = [(''Time'', [Some 0, Some 1]), (''V1'', [Some 1, Some 2])]\<rparr>
   \<and> detect_drift sample_json sample_settings sample_engine
        (MonitoringService_init sample_settings None None) (Content sample_reference)
        empty_db Map.empty (Some 100) None =
      (Inl (Exn DriftDetectionError
         ''No live data found in database. Please make some predictions via the API first.''
         None), Map.empty)"
proof -
  let ?ms = "MonitoringService_init sample_settings None None"
  let ?ref = "\<lparr>index_len = 2, cols = [(''Time'', [Some 0, Some (1::real)]), (''V1'', [Some 1, Some 2])]\<rparr>"
  have f: "fault empty_db = None" by (simp add: empty_db_def)
  have s: "select_features (live_predictions empty_db) (Some 100) = []" by code_simp
  have r: "load_reference_data ?ms (Content sample_reference) = Inr ?ref" by code_simp
  note t = empty_store_is_no_live_data[where db = empty_db and limit = "Some 100"
      and js = sample_json and ms = ?ms and ref_file = "Content sample_reference"
      and reference_df = ?ref and live_df = DataFrame and st = sample_settings
      and engine = sample_engine and fs = Map.empty and report_dir = None]
  from t f s have g: "get_feature_data sample_json empty_db (Some 100) = Inr DataFrame"
    and e: "empty_df DataFrame" by simp_all
  from t r g e have "detect_drift sample_json sample_settings sample_engine ?ms
        (Content sample_reference) empty_db Map.empty (Some 100) None =
      (Inl (Exn DriftDetectionError
         ''No live data found in database. Please make some predictions via the API first.''
         None), Map.empty)" by blast
  with g e r show ?thesis by blast
qed





text \<open>
  C3, as amended. When \<^verbatim>\<open>detect_drift\<close> has loaded its reference data and receives a
  live frame that is not empty and has at least \<^verbatim>\<open>min_records\<close> rows, and the column
  sets of the two frames differ, it raises a \<^verbatim>\<open>DriftDetectionError\<close> whose message lists
  the columns missing in the live frame (those of the reference that the live frame lacks)
  and the extra ones (those of the live frame that the reference lacks), each list sorted
  and without repetition, a list being left out when it is empty; at least one is not.
  No file is written.
\<close>

theorem feature_mismatch_in_order:
  "load_reference_data ms ref_file = Inr reference_df
     \<and> get_feature_data js db limit = Inr live_df \<and> \<not> empty_df live_df
     \<and> min_records ms \<le> int (index_len live_df)
     \<and> set (columns reference_df) \<noteq> set (columns live_df) \<longrightarrow>
   detect_drift js st engine ms ref_file db fs limit report_dir =
     (Inl (Exn DriftDetectionError
        (''Feature mismatch between reference and live data.''
           @ (if sorted_difference (columns reference_df) (columns live_df) \<noteq> []
              then '' Missing in live: ''
                     @ repr_list (sorted_difference (columns reference_df) (columns live_df))
              else [])
           @ (if sorted_difference (columns live_df) (columns reference_df) \<noteq> []
              then '' Extra in live: ''
                     @ repr_list (sorted_difference (columns live_df) (columns reference_df))
              else [])) None), fs)
   \<and> set (sorted_difference (columns reference_df) (columns live_df)) =
       set (columns reference_df) - set (columns live_df)
   \<and> set (sorted_difference (columns live_df) (columns reference_df)) =
       set (columns live_df) - set (columns reference_df)
   \<and> sorted (sorted_difference (columns reference_df) (columns live_df))
   \<and> distinct (sorted_difference (columns reference_df) (columns live_df))
   \<and> sorted (sorted_difference (columns live_df) (columns reference_df))
   \<and> distinct (sorted_difference (columns live_df) (columns reference_df))
   \<and> (sorted_difference (columns reference_df) (columns live_df) \<noteq> []
      \<or> sorted_difference (columns live_df) (columns reference_df) \<noteq> [])"
proof (intro impI conjI)
  assume h: "load_reference_data ms ref_file = Inr reference_df
     \<and> get_feature_data js db limit = Inr live_df \<and> \<not> empty_df live_df
     \<and> min_records ms \<le> int (index_len live_df)
     \<and> set (columns reference_df) \<noteq> set (columns live_df)"
  then have "\<not> int (index_len live_df) < min_records ms" by simp
  with h show "detect_drift js st engine ms ref_file db fs limit report_dir =
     (Inl (Exn DriftDetectionError
        (''Feature mismatch between reference and live data.''
           @ (if sorted_difference (columns reference_df) (columns live_df) \<noteq> []
              then '' Missing in live: ''
                     @ repr_list (sorted_difference (columns reference_df) (columns live_df))
              else [])
           @ (if sorted_difference (columns live_df) (columns reference_df) \<noteq> []
              then '' Extra in live: ''
                     @ repr_list (sorted_difference (columns live_df) (columns reference_df))
              else [])) None), fs)"
    by (intro detect_drift_mismatch) simp_all
  from h show "sorted_difference (columns reference_df) (columns live_df) \<noteq> []
      \<or> sorted_difference (columns live_df) (columns reference_df) \<noteq> []"
    by (auto simp: sorted_difference_Nil_iff)
qed (simp_all add: sorted_difference_props)

text \<open>
  The claim as stated fails when the live frame has fewer rows than \<^verbatim>\<open>min_records\<close>:
  the check of the number of rows comes first, and its message lists no column.
\<close>

theorem feature_mismatch_counterexample:
  "load_reference_data (MonitoringService_init sample_settings None None)
        (Content sample_reference) =
      Inr \<lparr>index_len = 2, cols = [(''Time'', [Some 0, Some 1]), (''V1'', [Some 1, Some 2])]\<rparr>
   \<and> get_feature_data sample_json feature_db None =
      Inr \<lparr>index_len = 3, cols = [(''Amount'', [Some 2, Some 2, Some 2])]\<rparr>
   \<and> set [''Time'', ''V1''] \<noteq> set [''Amount'']
   \<and> fst (detect_drift sample_json sample_settings sample_engine
        (MonitoringService_init sample_settings None None) (Content sample_reference)
        feature_db Map.empty None None) =
      Inl (Exn DriftDetectionError
         ''Not enough live data for drift detection. Found 3 records, but need at least 500 records. Please make more predictions via the API.''
         None)"
  by code_simp

theorem feature_mismatch_in_order_witness:
  "min_records (MonitoringService_init sample_settings None (Some 2)) = 2
   \<and> detect_drift sample_json sample_settings sample_engine
        (MonitoringService_init sample_settings None (Some 2)) (Content sample_reference)
        feature_db Map.empty None None =
      (Inl (Exn DriftDetectionError
         ''Feature mismatch between reference and live data. Missing in live: ['Time', 'V1'] Extra in live: ['Amount']''
         None), Map.empty)"
proof -
  let ?ms = "MonitoringService_init sample_settings None (Some 2)"
  let ?ref = "\<lparr>index_len = 2, cols = [(''Time'', [Some 0, Some (1::real)]), (''V1'', [Some 1, Some 2])]\<rparr>"
  let ?live = "\<lparr>index_len = 3, cols = [(''Amount'', [Some (2::real), Some 2, Some 2])]\<rparr>"
  have r: "load_reference_data ?ms (Content sample_reference) = Inr ?ref" by code_simp
  have g: "get_feature_data sample_json feature_db None = Inr ?live" by code_simp
  have n: "\<not> empty_df ?live" by (simp add: empty_df_def)
  have m: "min_records ?ms = 2" by code_simp
  have c: "min_records ?ms \<le> int (index_len ?live)" unfolding m by simp
  have d: "set (columns ?ref) \<noteq> set (columns ?live)" by (simp add: columns_def)
  have s: "sorted_difference (columns ?ref) (columns ?live) = [''Time'', ''V1'']"
    "sorted_difference (columns ?live) (columns ?ref) = [''Amount'']"
    by code_simp+
  have p: "repr_list [''Time'', ''V1''] = ''['Time', 'V1']''"
    "repr_list [''Amount''] = ''['Amount']''"
    by code_simp+
  note t = feature_mismatch_in_order[where js = sample_json and ms = ?ms
      and ref_file = "Content sample_reference" and reference_df = ?ref and db = feature_db
      and limit = None and live_df = ?live and st = sample_settings and engine = sample_engine
      and fs = Map.empty and report_dir = None]
  from t r g n c d have "detect_drift sample_json sample_settings sample_engine ?ms
        (Content sample_reference) feature_db Map.empty None None =
     (Inl (Exn DriftDetectionError
        (''Feature mismatch between reference and live data.''
           @ (if sorted_difference (columns ?ref) (columns ?live) \<noteq> []
              then '' Missing in live: ''
                     @ repr_list (sorted_difference (columns ?ref) (columns ?live))
              else [])
           @ (if sorted_difference (columns ?live) (columns ?ref) \<noteq> []
              then '' Extra in live: ''
                     @ repr_list (sorted_difference (columns ?live) (columns ?ref))
              else [])) None), Map.empty)"
    by blast
  then have "detect_drift sample_json sample_settings sample_engine ?ms
        (Content sample_reference) feature_db Map.empty None None =
      (Inl (Exn DriftDetectionError
         ''Feature mismatch between reference and live data. Missing in live: ['Time', 'V1'] Extra in live: ['Amount']''
         None), Map.empty)"
    unfolding s p by simp
  with m show ?thesis by blast
qed

section \<open>Verification: model service\<close>

lemma those_map_of:
  "set fl \<subseteq> set (map fst f) \<Longrightarrow>
   those (map (map_of f) fl) = Some (map (the \<circ> map_of f) fl)"
proof (induction fl)
  case Nil
  then show ?case by simp
next
  case (Cons k fl)
  then have "k \<in> fst ` set f" by simp
  then obtain v where "map_of f k = Some v"
    by (metis map_of_eq_None_iff not_Some_eq)
  with Cons show ?case by simp
qed

lemma select_row_complete:
  "set fl \<subseteq> set (map fst f) \<Longrightarrow> select_row f fl = Some (map (the \<circ> map_of f) fl)"
  by (simp add: select_row_def those_map_of)


lemma predict_missing:
  assumes "is_loaded ms" and "feature_list ms = Some fl"
    and "\<not> set fl \<subseteq> set (map fst f)"
  shows "predict ms f =
     Inl (Exn PredictionError
            (''Missing features: '' @ repr_list (sorted_difference fl (map fst f)))
            (Some (sorted_difference fl (map fst f))))"
proof -
  from assms(1) obtain clf where m: "model ms = Some clf" by (auto simp: is_loaded_def)
  from assms(3) have "sorted_difference fl (map fst f) \<noteq> []"
    by (simp add: sorted_difference_Nil_iff)
  with assms m show ?thesis by (simp add: predict_def Let_def)
qed

lemma predict_complete:
  assumes "is_loaded ms" and "model ms = Some clf" and "feature_list ms = Some fl"
    and "set fl \<subseteq> set (map fst f)"
    and "clf_predict clf (map (the \<circ> map_of f) fl) = Inr l"
    and "clf_predict_proba clf (map (the \<circ> map_of f) fl) = Inr p"
  shows "predict ms f = Inr \<lparr>res_prediction = l, res_probability = p\<rparr>"
proof -
  from assms(4) have "sorted_difference fl (map fst f) = []"
    by (simp add: sorted_difference_Nil_iff)
  with assms show ?thesis
    by (simp add: predict_def Let_def select_row_complete)
qed



text \<open>
  C5. For a loaded model service and a feature dictionary whose keys lack at least one
  name of the feature list, \<^verbatim>\<open>predict\<close> raises a \<^verbatim>\<open>PredictionError\<close> whose message
  and whose \<^verbatim>\<open>missing_features\<close> detail both give the missing names: exactly the names
  of the feature list that are not keys, each once, in ascending order.
\<close>

theorem predict_names_missing_features:
  "is_loaded ms \<and> feature_list ms = Some fl \<and> \<not> set fl \<subseteq> set (map fst features) \<longrightarrow>
   predict ms features =
     Inl (Exn PredictionError
            (''Missing features: '' @ repr_list (sorted_difference fl (map fst features)))
            (Some (sorted_difference fl (map fst features))))
   \<and> set (sorted_difference fl (map fst features)) = set fl - set (map fst features)
   \<and> sorted (sorted_difference fl (map fst features))
   \<and> distinct (sorted_difference fl (map fst features))"
  by (simp add: predict_missing sorted_difference_props)

theorem predict_names_missing_features_witness:
  "is_loaded sample_service
   \<and> feature_list sample_service = Some [''Time'', ''Amount'', ''V1'']
   \<and> predict sample_service [(''V1'', 1), (''V2'', 149), (''V3'', -1)] =
       Inl (Exn PredictionError ''Missing features: ['Amount', 'Time']''
              (Some [''Amount'', ''Time'']))"
proof -
  let ?f = "[(''V1'', 1), (''V2'', 149), (''V3'', -1)] :: feature_dict"
  let ?fl = "[''Time'', ''Amount'', ''V1'']"
  have a: "is_loaded sample_service"
    by (simp add: is_loaded_def sample_service_def)
  have b: "feature_list sample_service = Some ?fl"
    by (simp add: sample_service_def)
  have c: "\<not> set ?fl \<subseteq> set (map fst ?f)" by simp
  have d: "sorted_difference ?fl (map fst ?f) = [''Amount'', ''Time'']" by code_simp
  have e: "repr_list [''Amount'', ''Time''] = ''['Amount', 'Time']''" by code_simp
  from predict_names_missing_features[of sample_service ?fl ?f] a b c
  have "predict sample_service ?f =
     Inl (Exn PredictionError
            (''Missing features: '' @ repr_list (sorted_difference ?fl (map fst ?f)))
            (Some (sorted_difference ?fl (map fst ?f))))"
    by blast
  then have "predict sample_service ?f =
       Inl (Exn PredictionError ''Missing features: ['Amount', 'Time']''
              (Some [''Amount'', ''Time'']))"
    unfolding d e by simp
  with a b show ?thesis by blast
qed





section \<open>Verification: routes\<close>

lemma health_db:
  "DatabaseManager_health_check db = (\<forall>m. fault db \<noteq> Some (ConnectError m))"
  by (auto simp: DatabaseManager_health_check_def get_connection_def
      split: option.splits sqlite_error.splits)

lemma PredictionResponse_valid:
  assumes "p = 0 \<or> p = 1" "0 \<le> q" "q \<le> 1" "0 \<le> l"
  shows "PredictionResponse p q l t =
         Inr \<lparr>prediction = p, probability = q, latency_ms = l, timestamp = t\<rparr>"
  using assms by (auto simp: PredictionResponse_def)

lemma predict_route_response_ignores_database:
  "fst (predict_route js r2 s e now ms db tx) = fst (predict_route js r2 s e now ms db2 tx)"
  by (simp add: predict_route_def Let_def split: sum.splits)

text \<open>
  C1, as amended. The response of the prediction route does not depend on the database
  at all: it is the same whether \<^verbatim>\<open>save_prediction\<close> succeeds or raises. When the model
  prediction succeeds and the computed values pass the constraints of the response model
  (the label is 0 or 1, the probability lies between 0 and 1, and the measured latency is
  not negative), the route returns the response with the computed prediction, probability,
  latency and timestamp; when \<^verbatim>\<open>save_prediction\<close> raises, as it does on every fault of the
  database, the route logs the failure, leaves the database as it was and still returns
  that response.
\<close>

theorem prediction_survives_save_failure:
  "fst (predict_route js r2 s e now ms db tx) = fst (predict_route js r2 s e now ms db2 tx)
   \<and> (predict ms (model_dump tx) = Inr result
      \<and> (res_prediction result = 0 \<or> res_prediction result = 1)
      \<and> 0 \<le> res_probability result \<and> res_probability result \<le> 1
      \<and> 0 \<le> r2 ((e - s) * 1000) \<longrightarrow>
      fst (predict_route js r2 s e now ms db tx) =
        Inr \<lparr>prediction = res_prediction result, probability = res_probability result,
             latency_ms = r2 ((e - s) * 1000), timestamp = now\<rparr>
      \<and> (\<forall>err. save_prediction js now db (model_dump tx) (res_prediction result)
                  (res_probability result) (r2 ((e - s) * 1000)) (Some now) = Inl err \<longrightarrow>
             snd (predict_route js r2 s e now ms db tx) =
               ([LogError (''Failed to save prediction to database: '' @ str_exn err),
                 LogPredictionMade (res_prediction result) (res_probability result)
                   (r2 ((e - s) * 1000))], db))
      \<and> (\<forall>x. fault db = Some x \<longrightarrow>
             save_prediction js now db (model_dump tx) (res_prediction result)
               (res_probability result) (r2 ((e - s) * 1000)) (Some now) =
               Inl (Exn DatabaseError
                      (''Failed to save prediction: Database operation failed: ''
                         @ error_text x) None)))"
proof (intro conjI impI allI)
  show "fst (predict_route js r2 s e now ms db tx) = fst (predict_route js r2 s e now ms db2 tx)"
    by (rule predict_route_response_ignores_database)
next
  assume h: "predict ms (model_dump tx) = Inr result
      \<and> (res_prediction result = 0 \<or> res_prediction result = 1)
      \<and> 0 \<le> res_probability result \<and> res_probability result \<le> 1
      \<and> 0 \<le> r2 ((e - s) * 1000)"
  let ?l = "r2 ((e - s) * 1000)"
  from h have v: "PredictionResponse (res_prediction result) (res_probability result) ?l now =
      Inr \<lparr>prediction = res_prediction result, probability = res_probability result,
           latency_ms = ?l, timestamp = now\<rparr>"
    by (intro PredictionResponse_valid) simp_all
  from h v show "fst (predict_route js r2 s e now ms db tx) =
        Inr \<lparr>prediction = res_prediction result, probability = res_probability result,
             latency_ms = ?l, timestamp = now\<rparr>"
    by (simp add: predict_route_def Let_def)
  {
    fix err
    assume "save_prediction js now db (model_dump tx) (res_prediction result)
                  (res_probability result) ?l (Some now) = Inl err"
    with h v show "snd (predict_route js r2 s e now ms db tx) =
               ([LogError (''Failed to save prediction to database: '' @ str_exn err),
                 LogPredictionMade (res_prediction result) (res_probability result) ?l], db)"
      by (simp add: predict_route_def Let_def)
  }
  {
    fix x
    assume "fault db = Some x"
    then show "save_prediction js now db (model_dump tx) (res_prediction result)
               (res_probability result) ?l (Some now) =
               Inl (Exn DatabaseError
                      (''Failed to save prediction: Database operation failed: ''
                         @ error_text x) None)"
      by (rule save_prediction_fault)
  }
qed

text \<open>
  The claim as stated fails when the wall clock steps back between the two readings: the
  model prediction succeeds, \<^verbatim>\<open>save_prediction\<close> raises and is swallowed, but the
  negative latency is refused by the response model and the request fails with status 500.
\<close>

theorem clock_step_back_counterexample:
  "predict sample_service (model_dump sample_transaction) =
     Inr \<lparr>res_prediction = 1, res_probability = 3 / 4\<rparr>
   \<and> save_prediction sample_json ''2024-01-05T00:00:00'' locked_db
        (model_dump sample_transaction) 1 (3 / 4) (round2 ((9 - 10) * 1000))
        (Some ''2024-01-05T00:00:00'') =
       Inl (Exn DatabaseError
              ''Failed to save prediction: Database operation failed: database is locked'' None)
   \<and> fst (predict_route sample_json round2 10 9 ''2024-01-05T00:00:00'' sample_service
        locked_db sample_transaction) =
       Inl \<lparr>status_code = 500, detail = ''An unexpected error occurred''\<rparr>"
  by code_simp

theorem prediction_survives_save_failure_witness:
  "predict sample_service (model_dump sample_transaction) =
     Inr \<lparr>res_prediction = 1, res_probability = 3 / 4\<rparr>
   \<and> save_prediction sample_json ''2024-01-05T00:00:00'' locked_db
        (model_dump sample_transaction) 1 (3 / 4) (round2 ((21 / 2 - 10) * 1000))
        (Some ''2024-01-05T00:00:00'') =
       Inl (Exn DatabaseError
              ''Failed to save prediction: Database operation failed: database is locked'' None)
   \<and> predict_route sample_json round2 10 (21 / 2) ''2024-01-05T00:00:00'' sample_service
        locked_db sample_transaction =
       (Inr \<lparr>prediction = 1, probability = 3 / 4, latency_ms = 500,
             timestamp = ''2024-01-05T00:00:00''\<rparr>,
        [LogError ''Failed to save prediction to database: Failed to save prediction: Database operation failed: database is locked'',
         LogPredictionMade 1 (3 / 4) 500],
        locked_db)"
proof -
  let ?now = "''2024-01-05T00:00:00''"
  let ?res = "\<lparr>res_prediction = 1, res_probability = 3 / 4\<rparr>"
  let ?err = "Exn DatabaseError
              ''Failed to save prediction: Database operation failed: database is locked'' None"
  have p: "predict sample_service (model_dump sample_transaction) = Inr ?res"
    by code_simp
  have l: "round2 ((21 / 2 - 10) * 1000) = 500" by code_simp
  have r: "res_prediction ?res = 0 \<or> res_prediction ?res = 1" "0 \<le> res_probability ?res"
    "res_probability ?res \<le> 1" "0 \<le> round2 ((21 / 2 - 10) * 1000)"
    unfolding l by simp_all
  have f: "fault locked_db = Some (StatementError ''database is locked'')"
    by (simp add: locked_db_def)
  have se: "str_exn ?err =
      ''Failed to save prediction: Database operation failed: database is locked''"
    by (simp add: str_exn_def)
  note t = prediction_survives_save_failure[where js = sample_json and ?r2.0 = round2
      and s = 10 and e = "21 / 2" and now = ?now and ms = sample_service and db = locked_db
      and tx = sample_transaction and result = ?res,
      THEN conjunct2, THEN mp, OF conjI[OF p conjI[OF r(1) conjI[OF r(2) conjI[OF r(3) r(4)]]]]]
  from t[THEN conjunct2, THEN conjunct2, THEN spec, THEN mp, OF f]
  have sv: "save_prediction sample_json ?now locked_db
        (model_dump sample_transaction) (res_prediction ?res) (res_probability ?res)
        (round2 ((21 / 2 - 10) * 1000)) (Some ?now) = Inl ?err"
    by simp
  from t[THEN conjunct1]
  have a: "fst (predict_route sample_json round2 10 (21 / 2) ?now sample_service
        locked_db sample_transaction) =
        Inr \<lparr>prediction = res_prediction ?res, probability = res_probability ?res,
             latency_ms = round2 ((21 / 2 - 10) * 1000), timestamp = ?now\<rparr>" .
  from t[THEN conjunct2, THEN conjunct1, THEN spec, THEN mp, OF sv]
  have b: "snd (predict_route sample_json round2 10 (21 / 2) ?now sample_service
        locked_db sample_transaction) =
        ([LogError (''Failed to save prediction to database: '' @ str_exn ?err),
          LogPredictionMade (res_prediction ?res) (res_probability ?res)
            (round2 ((21 / 2 - 10) * 1000))], locked_db)" .
  from a b have c: "predict_route sample_json round2 10 (21 / 2) ?now sample_service
        locked_db sample_transaction =
       (Inr \<lparr>prediction = 1, probability = 3 / 4, latency_ms = 500, timestamp = ?now\<rparr>,
        [LogError ''Failed to save prediction to database: Failed to save prediction: Database operation failed: database is locked'',
         LogPredictionMade 1 (3 / 4) 500],
        locked_db)"
    unfolding l se by (simp add: prod_eq_iff)
  from sv have sv': "save_prediction sample_json ?now locked_db
        (model_dump sample_transaction) 1 (3 / 4) (round2 ((21 / 2 - 10) * 1000))
        (Some ?now) = Inl ?err"
    by simp
  from p sv' c show ?thesis by (intro conjI)
qed

text \<open>
  C9. The health route returns a response on every path, whatever the two calls it makes
  return or raise: the status is \<^verbatim>\<open>error\<close> exactly when one of the calls raised,
  \<^verbatim>\<open>healthy\<close> when both returned true, \<^verbatim>\<open>degraded\<close> when exactly one returned false.
  On the repository's own model service and database manager neither call raises: the
  response reports whether the model is loaded and whether the database check passes,
  with status \<^verbatim>\<open>healthy\<close> when both hold and \<^verbatim>\<open>degraded\<close> otherwise. The database
  check opens a connection and runs \<^verbatim>\<open>SELECT 1\<close>; it fails exactly when the file cannot
  be opened.
\<close>

theorem health_check_always_responds:
  "(\<exists>r. health_check_body a b = Inr r
        \<and> (hr_status r = ''error'') = ((\<exists>x. a = Inl x) \<or> (\<exists>x. b = Inl x))
        \<and> (a = Inr True \<and> b = Inr True \<longrightarrow> hr_status r = ''healthy'')
        \<and> (a = Inr True \<and> b = Inr False \<or> a = Inr False \<and> b = Inr True \<longrightarrow>
             hr_status r = ''degraded''))
   \<and> (\<exists>r. health_check ms db = Inr r
        \<and> hr_model_loaded r = is_loaded ms
        \<and> hr_database_connected r = DatabaseManager_health_check db
        \<and> hr_status r =
            (if is_loaded ms \<and> DatabaseManager_health_check db
             then ''healthy'' else ''degraded''))
   \<and> DatabaseManager_health_check db = (\<forall>m. fault db \<noteq> Some (ConnectError m))"
proof (intro conjI)
  show "\<exists>r. health_check_body a b = Inr r
        \<and> (hr_status r = ''error'') = ((\<exists>x. a = Inl x) \<or> (\<exists>x. b = Inl x))
        \<and> (a = Inr True \<and> b = Inr True \<longrightarrow> hr_status r = ''healthy'')
        \<and> (a = Inr True \<and> b = Inr False \<or> a = Inr False \<and> b = Inr True \<longrightarrow>
             hr_status r = ''degraded'')"
    by (cases a; cases b) (auto simp: health_check_body_def Let_def)
next
  show "\<exists>r. health_check ms db = Inr r
        \<and> hr_model_loaded r = is_loaded ms
        \<and> hr_database_connected r = DatabaseManager_health_check db
        \<and> hr_status r =
            (if is_loaded ms \<and> DatabaseManager_health_check db
             then ''healthy'' else ''degraded'')"
    by (simp add: health_check_def health_check_body_def Let_def)
next
  show "DatabaseManager_health_check db = (\<forall>m. fault db \<noteq> Some (ConnectError m))"
    by (rule health_db)
qed

theorem health_check_always_responds_witness:
  "health_check sample_service feature_db =
     Inr \<lparr>hr_status = ''healthy'', hr_message = ''API is operational'',
          hr_model_loaded = True, hr_database_connected = True\<rparr>
   \<and> health_check sample_service locked_db =
     Inr \<lparr>hr_status = ''healthy'', hr_message = ''API is operational'',
          hr_model_loaded = True, hr_database_connected = True\<rparr>
   \<and> health_check sample_service unreachable_db =
     Inr \<lparr>hr_status = ''degraded'', hr_message = ''API is degraded: database not connected'',
          hr_model_loaded = True, hr_database_connected = False\<rparr>
   \<and> health_check_body (Inr False) (Inr True) =
     Inr \<lparr>hr_status = ''degraded'', hr_message = ''API is degraded: model not loaded'',
          hr_model_loaded = False, hr_database_connected = True\<rparr>
   \<and> health_check_body (Inr True) (Inl (Exn PyException ''boom'' None)) =
     Inr \<lparr>hr_status = ''error'', hr_message = ''Health check failed: boom'',
          hr_model_loaded = False, hr_database_connected = False\<rparr>"
proof -
  let ?R1 = "\<lparr>hr_status = ''healthy'', hr_message = ''API is operational'',
          hr_model_loaded = True, hr_database_connected = True\<rparr>"
  let ?R2 = "\<lparr>hr_status = ''degraded'', hr_message = ''API is degraded: database not connected'',
          hr_model_loaded = True, hr_database_connected = False\<rparr>"
  let ?R3 = "\<lparr>hr_status = ''degraded'', hr_message = ''API is degraded: model not loaded'',
          hr_model_loaded = False, hr_database_connected = True\<rparr>"
  let ?R4 = "\<lparr>hr_status = ''error'', hr_message = ''Health check failed: boom'',
          hr_model_loaded = False, hr_database_connected = False\<rparr>"
  let ?boom = "Inl (Exn PyException ''boom'' None) :: exn + bool"
  have l: "is_loaded sample_service" by (simp add: is_loaded_def sample_service_def)
  have e1: "health_check sample_service feature_db = Inr ?R1" by code_simp
  have e2: "health_check sample_service unreachable_db = Inr ?R2" by code_simp
  have e3: "health_check_body (Inr False) (Inr True) = Inr ?R3" by code_simp
  have e4: "health_check_body (Inr True) ?boom = Inr ?R4" by code_simp
  note t1 = health_check_always_responds[where ms = sample_service and db = locked_db]
  from t1[THEN conjunct2, THEN conjunct2]
  have k: "DatabaseManager_health_check locked_db"
    by (simp add: locked_db_def)
  from t1[THEN conjunct2, THEN conjunct1]
  obtain r1 where r1: "health_check sample_service locked_db = Inr r1
        \<and> hr_model_loaded r1 = is_loaded sample_service
        \<and> hr_database_connected r1 = DatabaseManager_health_check locked_db
        \<and> hr_status r1 =
            (if is_loaded sample_service \<and> DatabaseManager_health_check locked_db
             then ''healthy'' else ''degraded'')" ..
  with l k have a: "health_check sample_service locked_db = Inr r1"
    "hr_status r1 = ''healthy''" "hr_model_loaded r1" "hr_database_connected r1"
    by simp_all
  have "health_check sample_service locked_db = Inr ?R1" by code_simp
  with a(1) have "r1 = ?R1" by simp
  with a e1 e2 e3 e4 show ?thesis by simp
qed

end
